theory Spec2Isabelle
  imports Complex_Main
begin

section \<open>Triangle agents over an SC-memory emulation\<close>

text \<open>
  The repository holds one program twice: \<^verbatim>\<open>triangle_agents.c\<close> (C, a growable array of
  entries) and its C++ twin (two \<^verbatim>\<open>std::map\<close>s in \<^verbatim>\<open>sc::MemoryContext\<close>). Both are
  embedded here, side by side, over one data model.

  Conventions of the embedding.
  \<^item> \<^verbatim>\<open>double\<close> is IEEE 754 binary64 with the default rounding (to nearest, ties to
    even), each operation evaluated in that format: every sum and difference is rounded,
    overflows to an infinity, and propagates NaN. See the next subsection.
  \<^item> A stored \<^verbatim>\<open>void*\<close> is modelled by \<open>pointer\<close>: \<open>NULL\<close>, \<open>Ptr obj\<close> for the address
    of a live object \<open>obj\<close>, or \<open>Dangling\<close> for the address of an automatic variable whose
    function has returned. A write through a pointer obtained from the store is an update
    of the entry it was read from; a read through \<open>Dangling\<close> is undefined. Aliasing
    between entries is not represented.
  \<^item> \<^verbatim>\<open>sc_log_event\<close> / \<^verbatim>\<open>sc::log_sc_event\<close> only print; the printed text is not
    modelled.
  \<^item> A process exit, a thrown exception and an undefined access are values of \<open>failure\<close>.
\<close>

subsection \<open>Binary64 arithmetic\<close>

text \<open>
  A \<^verbatim>\<open>double\<close> is a finite number, an infinity or NaN. The two zeros are one value:
  they compare equal, and the program neither divides nor takes a sign. \<open>Finite x\<close>
  is meant for the reals \<open>x\<close> that binary64 represents; the operations below return only
  such values, and no theorem needs the others excluded.

  \<open>dbl_round\<close> rounds a real result to binary64: the spacing of the representable numbers
  around \<open>x\<close> is \<open>2 ^ (e - 52)\<close> for \<open>2 ^ e \<le> \<bar>x\<bar> < 2 ^ (e + 1)\<close>, and never below
  \<open>2 ^ -1074\<close> (subnormal numbers); \<open>x\<close> is rounded to the nearest multiple of that
  spacing, to the even one on a tie, and a result of magnitude \<open>2 ^ 1024\<close> is an overflow.
\<close>

datatype double = Finite real | PlusInf | MinusInf | NaN

definition pow2 :: "int \<Rightarrow> real" where
  "pow2 k = (if 0 \<le> k then 2 ^ nat k else 1 / 2 ^ nat (- k))"

definition round_ties_even :: "real \<Rightarrow> int" where
  "round_ties_even y =
     (let f = \<lfloor>y\<rfloor>
      in if y - of_int f < 1 / 2 then f
         else if 1 / 2 < y - of_int f then f + 1
         else if even f then f else f + 1)"

definition dbl_round :: "real \<Rightarrow> double" where
  "dbl_round x =
     (if x = 0 then Finite 0
      else (let q = pow2 (max (\<lfloor>log 2 \<bar>x\<bar>\<rfloor> - 52) (- 1074));
                r = of_int (round_ties_even (x / q)) * q
            in if 2 ^ 1024 \<le> \<bar>r\<bar> then (if 0 < r then PlusInf else MinusInf)
               else Finite r))"

fun double_neg :: "double \<Rightarrow> double" where
  "double_neg (Finite x) = Finite (- x)"
| "double_neg PlusInf = MinusInf"
| "double_neg MinusInf = PlusInf"
| "double_neg NaN = NaN"

fun double_add :: "double \<Rightarrow> double \<Rightarrow> double" where
  "double_add NaN b = NaN"
| "double_add a NaN = NaN"
| "double_add PlusInf MinusInf = NaN"
| "double_add MinusInf PlusInf = NaN"
| "double_add PlusInf b = PlusInf"
| "double_add a PlusInf = PlusInf"
| "double_add MinusInf b = MinusInf"
| "double_add a MinusInf = MinusInf"
| "double_add (Finite x) (Finite y) = dbl_round (x + y)"

definition double_sub :: "double \<Rightarrow> double \<Rightarrow> double" where
  "double_sub a b = double_add a (double_neg b)"

fun fabs :: "double \<Rightarrow> double" where
  "fabs (Finite x) = Finite \<bar>x\<bar>"
| "fabs PlusInf = PlusInf"
| "fabs MinusInf = PlusInf"
| "fabs NaN = NaN"

fun double_less :: "double \<Rightarrow> double \<Rightarrow> bool" where
  "double_less NaN b = False"
| "double_less a NaN = False"
| "double_less (Finite x) (Finite y) = (x < y)"
| "double_less a MinusInf = False"
| "double_less PlusInf b = False"
| "double_less MinusInf b = True"
| "double_less a PlusInf = True"

subsection \<open>Domain structures\<close>

record angle =
  "value" :: double
  is_known :: bool

text \<open>
  The C field \<^verbatim>\<open>int is_known\<close> is only tested for being non-zero and only assigned 1;
  it is the \<open>bool\<close> of the C++ twin.
  \<^verbatim>\<open>angle angles[3]\<close> is a list; a triangle of the program has \<open>length (angles t) = 3\<close>.
\<close>

record triangle =
  angles :: "angle list"

datatype sc_result = SC_RESULT_OK | SC_RESULT_ERROR

text \<open>
  What a stored pointer can designate: a triangle, a C \<^verbatim>\<open>int\<close>, a C++ \<^verbatim>\<open>bool\<close>, or the
  C++ rule set \<^verbatim>\<open>std::map<std::string, std::string>\<close>.
\<close>

datatype object =
    Obj_triangle triangle
  | Obj_int int
  | Obj_bool bool
  | Obj_rules "(string \<times> string) list"

datatype pointer = NULL | Ptr object | Dangling

text \<open>
  \<open>TypeMismatch\<close>: the C \<^verbatim>\<open>exit(EXIT_FAILURE)\<close> after "Type mismatch for SC element", and
  the C++ \<^verbatim>\<open>std::runtime_error("Type mismatch for SC element: ...")\<close>.
  \<open>KeyNotFound\<close>: the error kind the specification names for an absent key; no statement of
  either source produces it.
  \<open>NullDereference\<close>, \<open>DanglingDereference\<close>, \<open>BadCast\<close>, \<open>OutOfBounds\<close>: undefined accesses
  (a member access or read through a null pointer, through the address of a dead
  automatic variable, through a pointer to an object of another type, a write past the
  allocated array).
\<close>

datatype failure =
  TypeMismatch | KeyNotFound | NullDereference | DanglingDereference | BadCast | OutOfBounds

subsection \<open>The C store: \<^verbatim>\<open>sc_memory_context\<close>\<close>

record sc_memory_entry =
  addr :: string
  data :: pointer
  type :: string

text \<open>
  \<open>entries\<close> is the initialised prefix \<^verbatim>\<open>entries[0 .. size)\<close> of the allocated array, so the
  field \<^verbatim>\<open>size\<close> is \<open>length (entries ctx)\<close>; \<open>capacity\<close> is the number of allocated slots.
\<close>

record sc_memory_context =
  entries :: "sc_memory_entry list"
  capacity :: nat

definition sc_memory_init :: "nat \<Rightarrow> sc_memory_context" where
  "sc_memory_init initial_capacity = \<lparr>entries = [], capacity = initial_capacity\<rparr>"

text \<open>The first loop of \<^verbatim>\<open>sc_memory_store\<close>: overwrite the first entry named \<open>a\<close>, if any.\<close>

fun update_existing ::
  "sc_memory_entry list \<Rightarrow> string \<Rightarrow> pointer \<Rightarrow> string \<Rightarrow> sc_memory_entry list option" where
  "update_existing [] a d t = None"
| "update_existing (e # es) a d t =
     (if addr e = a then Some (e\<lparr>data := d, type := t\<rparr> # es)
      else map_option ((#) e) (update_existing es a d t))"

text \<open>
  Otherwise the capacity is doubled when the array is full and the new entry is written
  at index \<^verbatim>\<open>size\<close>; that write is inside the allocation only if \<^verbatim>\<open>size < capacity\<close>.
\<close>

definition sc_memory_store ::
  "sc_memory_context \<Rightarrow> string \<Rightarrow> pointer \<Rightarrow> string \<Rightarrow> failure + sc_memory_context" where
  "sc_memory_store ctx a d t =
     (case update_existing (entries ctx) a d t of
        Some es \<Rightarrow> Inr (ctx\<lparr>entries := es\<rparr>)
      | None \<Rightarrow>
          (let cap = (if length (entries ctx) \<ge> capacity ctx then capacity ctx * 2
                      else capacity ctx)
           in if length (entries ctx) < cap
              then Inr \<lparr>entries = entries ctx @ [\<lparr>addr = a, data = d, type = t\<rparr>],
                        capacity = cap\<rparr>
              else Inl OutOfBounds))"

fun get_loop :: "sc_memory_entry list \<Rightarrow> string \<Rightarrow> string \<Rightarrow> failure + pointer" where
  "get_loop [] a t = Inr NULL"
| "get_loop (e # es) a t =
     (if addr e = a then (if type e \<noteq> t then Inl TypeMismatch else Inr (data e))
      else get_loop es a t)"

definition sc_memory_get :: "sc_memory_context \<Rightarrow> string \<Rightarrow> string \<Rightarrow> failure + pointer" where
  "sc_memory_get ctx a t = get_loop (entries ctx) a t"

text \<open>
  A write through the pointer that \<open>sc_memory_get ctx a t\<close> returned: the object of the
  first entry named \<open>a\<close> is replaced.
\<close>

fun write_through :: "sc_memory_entry list \<Rightarrow> string \<Rightarrow> object \<Rightarrow> sc_memory_entry list" where
  "write_through [] a obj = []"
| "write_through (e # es) a obj =
     (if addr e = a then e\<lparr>data := Ptr obj\<rparr> # es else e # write_through es a obj)"

text \<open>
  The end of the lifetime of an automatic variable whose address was stored under \<open>a\<close>
  by the function that now returns: the pointer of the first entry named \<open>a\<close> (the one
  \<^verbatim>\<open>sc_memory_store\<close> has just written) dangles from here on.
\<close>

fun end_lifetime :: "sc_memory_entry list \<Rightarrow> string \<Rightarrow> sc_memory_entry list" where
  "end_lifetime [] a = []"
| "end_lifetime (e # es) a =
     (if addr e = a then e\<lparr>data := Dangling\<rparr> # es else e # end_lifetime es a)"

subsection \<open>The C++ store: \<^verbatim>\<open>sc::MemoryContext\<close>\<close>

text \<open>
  The payload types the program instantiates \<^verbatim>\<open>store<T>\<close> and \<^verbatim>\<open>get<T>\<close> with, and the
  strings held by the map \<^verbatim>\<open>types\<close>: \<open>Name_of T\<close> is \<^verbatim>\<open>typeid(T).name()\<close>
  (implementation-defined; taken to be non-empty and different for different types),
  \<open>Empty_name\<close> is the empty \<^verbatim>\<open>std::string\<close> that \<^verbatim>\<open>operator[]\<close> inserts for a new key.
\<close>

datatype cpp_type = T_Triangle | T_bool | T_rules

datatype type_name = Empty_name | Name_of cpp_type

record MemoryContext =
  data_cpp :: "string \<rightharpoonup> pointer"
  types :: "string \<rightharpoonup> type_name"

definition store :: "cpp_type \<Rightarrow> string \<Rightarrow> pointer \<Rightarrow> MemoryContext \<Rightarrow> MemoryContext" where
  "store T a v ctx =
     ctx\<lparr>data_cpp := (data_cpp ctx)(a \<mapsto> v), types := (types ctx)(a \<mapsto> Name_of T)\<rparr>"

text \<open>
  \<^verbatim>\<open>types[addr]\<close> and \<^verbatim>\<open>data[addr]\<close> are \<^verbatim>\<open>std::map::operator[]\<close>: a missing key is
  inserted with a value-initialised element before the reference is returned. The
  context is returned with the result, since the insertion survives the \<^verbatim>\<open>throw\<close>.
\<close>

definition get ::
  "cpp_type \<Rightarrow> string \<Rightarrow> MemoryContext \<Rightarrow> (failure + pointer) \<times> MemoryContext" where
  "get T a ctx =
     (let ty = (case types ctx a of None \<Rightarrow> Empty_name | Some n \<Rightarrow> n);
          ctx1 = ctx\<lparr>types := (types ctx)(a \<mapsto> ty)\<rparr>
      in if ty \<noteq> Name_of T then (Inl TypeMismatch, ctx1)
         else (let p = (case data_cpp ctx1 a of None \<Rightarrow> NULL | Some q \<Rightarrow> q)
               in (Inr p, ctx1\<lparr>data_cpp := (data_cpp ctx1)(a \<mapsto> p)\<rparr>)))"

subsection \<open>The loops of the agents\<close>

text \<open>
  First loop of the angle agent: \<^verbatim>\<open>unknown_count\<close> and \<^verbatim>\<open>sum_known\<close>, accumulated from
  left to right; \<^verbatim>\<open>sum_known += value\<close> is a binary64 addition.
\<close>

fun count_and_sum :: "angle list \<Rightarrow> int \<Rightarrow> double \<Rightarrow> int \<times> double" where
  "count_and_sum [] unknown_count sum_known = (unknown_count, sum_known)"
| "count_and_sum (a # as) unknown_count sum_known =
     (if is_known a then count_and_sum as unknown_count (double_add sum_known (value a))
      else count_and_sum as (unknown_count + 1) sum_known)"

text \<open>
  Second loop: the first angle that is not known receives the value and the flag, and the
  function returns; \<open>None\<close> is the loop running to its end.
\<close>

fun fill_unknown :: "double \<Rightarrow> angle list \<Rightarrow> angle list option" where
  "fill_unknown v [] = None"
| "fill_unknown v (a # as) =
     (if \<not> is_known a then Some (a\<lparr>value := v, is_known := True\<rparr> # as)
      else map_option ((#) a) (fill_unknown v as))"

definition calculate_angles :: "triangle \<Rightarrow> sc_result \<times> triangle" where
  "calculate_angles tri =
     (case count_and_sum (angles tri) 0 (Finite 0) of
        (unknown_count, sum_known) \<Rightarrow>
          if unknown_count = 1
          then (case fill_unknown (double_sub (Finite 180) sum_known) (angles tri) of
                  Some as \<Rightarrow> (SC_RESULT_OK, tri\<lparr>angles := as\<rparr>)
                | None \<Rightarrow> (SC_RESULT_ERROR, tri))
          else (SC_RESULT_ERROR, tri))"

text \<open>
  Loop of the right-angle agent: \<^verbatim>\<open>is_known && fabs(value - 90.0) < 0.001\<close>. The literal
  \<^verbatim>\<open>0.001\<close> is the binary64 number nearest to one thousandth.
\<close>

fun right_angle_found :: "angle list \<Rightarrow> bool" where
  "right_angle_found [] = False"
| "right_angle_found (a # as) =
     (if is_known a \<and> double_less (fabs (double_sub (value a) (Finite 90))) (dbl_round 0.001)
      then True else right_angle_found as)"

subsection \<open>The agents, C\<close>

definition calculate_angles_agent_execute ::
  "sc_memory_context \<Rightarrow> failure + (sc_result \<times> sc_memory_context)" where
  "calculate_angles_agent_execute ctx =
     (case sc_memory_get ctx ''input_triangle'' ''triangle'' of
        Inl f \<Rightarrow> Inl f
      | Inr NULL \<Rightarrow> Inl NullDereference
      | Inr Dangling \<Rightarrow> Inl DanglingDereference
      | Inr (Ptr (Obj_triangle tri)) \<Rightarrow>
          (case calculate_angles tri of
             (r, tri') \<Rightarrow>
               Inr (r, ctx\<lparr>entries :=
                      write_through (entries ctx) ''input_triangle'' (Obj_triangle tri')\<rparr>))
      | Inr (Ptr _) \<Rightarrow> Inl BadCast)"

text \<open>
  The right-angle agent passes \<^verbatim>\<open>&is_right\<close>, the address of an automatic variable, to
  \<^verbatim>\<open>sc_memory_store\<close>. \<open>check_right_angle_agent_body\<close> is the function up to its
  \<^verbatim>\<open>return\<close> statement, where \<^verbatim>\<open>is_right\<close> is alive and the stored pointer designates
  it. \<open>check_right_angle_agent_execute\<close> is the whole call: at the return the variable
  dies and the stored pointer dangles.
\<close>

definition check_right_angle_agent_body ::
  "sc_memory_context \<Rightarrow> failure + (sc_result \<times> sc_memory_context)" where
  "check_right_angle_agent_body ctx =
     (case sc_memory_get ctx ''input_triangle'' ''triangle'' of
        Inl f \<Rightarrow> Inl f
      | Inr NULL \<Rightarrow> Inl NullDereference
      | Inr Dangling \<Rightarrow> Inl DanglingDereference
      | Inr (Ptr (Obj_triangle tri)) \<Rightarrow>
          (let is_right = (if right_angle_found (angles tri) then 1 else 0)
           in case sc_memory_store ctx ''is_right_triangle'' (Ptr (Obj_int is_right)) ''int'' of
                Inl f \<Rightarrow> Inl f
              | Inr ctx' \<Rightarrow> Inr (SC_RESULT_OK, ctx'))
      | Inr (Ptr _) \<Rightarrow> Inl BadCast)"

definition check_right_angle_agent_execute ::
  "sc_memory_context \<Rightarrow> failure + (sc_result \<times> sc_memory_context)" where
  "check_right_angle_agent_execute ctx =
     (case check_right_angle_agent_body ctx of
        Inl f \<Rightarrow> Inl f
      | Inr (r, ctx') \<Rightarrow>
          Inr (r, ctx'\<lparr>entries := end_lifetime (entries ctx') ''is_right_triangle''\<rparr>))"

definition triangle_processing_agent_execute ::
  "sc_memory_context \<Rightarrow> failure + (sc_result \<times> sc_memory_context)" where
  "triangle_processing_agent_execute ctx =
     (case calculate_angles_agent_execute ctx of
        Inl f \<Rightarrow> Inl f
      | Inr (r1, ctx1) \<Rightarrow>
          if r1 \<noteq> SC_RESULT_OK then Inr (SC_RESULT_ERROR, ctx1)
          else (case check_right_angle_agent_execute ctx1 of
                  Inl f \<Rightarrow> Inl f
                | Inr (r2, ctx2) \<Rightarrow>
                    if r2 \<noteq> SC_RESULT_OK then Inr (SC_RESULT_ERROR, ctx2)
                    else (case sc_memory_get ctx2 ''is_right_triangle'' ''int'' of
                            Inl f \<Rightarrow> Inl f
                          | Inr NULL \<Rightarrow> Inl NullDereference
                          | Inr Dangling \<Rightarrow> Inl DanglingDereference
                          | Inr (Ptr (Obj_int is_right)) \<Rightarrow> Inr (SC_RESULT_OK, ctx2)
                          | Inr (Ptr _) \<Rightarrow> Inl BadCast)))"

subsection \<open>The agents, C++\<close>

text \<open>
  \<^verbatim>\<open>sc::Result::Ok\<close> and \<^verbatim>\<open>sc::Result::Error\<close> are \<open>SC_RESULT_OK\<close> and \<open>SC_RESULT_ERROR\<close>.
  Both agents fetch \<^verbatim>\<open>rules_set\<close> after the triangle and never look at it. The
  right-angle agent stores the address of its local \<^verbatim>\<open>bool is_right\<close>;
  \<open>CheckRightAngleAgent_body\<close> and \<open>CheckRightAngleAgent_execute\<close> are split as in C.
\<close>

definition CalculateAnglesAgent_execute ::
  "MemoryContext \<Rightarrow> (failure + sc_result) \<times> MemoryContext" where
  "CalculateAnglesAgent_execute ctx =
     (case get T_Triangle ''input_triangle'' ctx of
        (Inl f, ctx1) \<Rightarrow> (Inl f, ctx1)
      | (Inr p, ctx1) \<Rightarrow>
          (case get T_rules ''rules_set'' ctx1 of
             (Inl f, ctx2) \<Rightarrow> (Inl f, ctx2)
           | (Inr rules, ctx2) \<Rightarrow>
               (case p of
                  NULL \<Rightarrow> (Inl NullDereference, ctx2)
                | Dangling \<Rightarrow> (Inl DanglingDereference, ctx2)
                | Ptr (Obj_triangle tri) \<Rightarrow>
                    (case calculate_angles tri of
                       (r, tri') \<Rightarrow>
                         (Inr r, ctx2\<lparr>data_cpp :=
                            (data_cpp ctx2)(''input_triangle'' \<mapsto> Ptr (Obj_triangle tri'))\<rparr>))
                | Ptr _ \<Rightarrow> (Inl BadCast, ctx2))))"

definition CheckRightAngleAgent_body ::
  "MemoryContext \<Rightarrow> (failure + sc_result) \<times> MemoryContext" where
  "CheckRightAngleAgent_body ctx =
     (case get T_Triangle ''input_triangle'' ctx of
        (Inl f, ctx1) \<Rightarrow> (Inl f, ctx1)
      | (Inr p, ctx1) \<Rightarrow>
          (case get T_rules ''rules_set'' ctx1 of
             (Inl f, ctx2) \<Rightarrow> (Inl f, ctx2)
           | (Inr rules, ctx2) \<Rightarrow>
               (case p of
                  NULL \<Rightarrow> (Inl NullDereference, ctx2)
                | Dangling \<Rightarrow> (Inl DanglingDereference, ctx2)
                | Ptr (Obj_triangle tri) \<Rightarrow>
                    (let is_right = right_angle_found (angles tri)
                     in (Inr SC_RESULT_OK,
                         store T_bool ''is_right_triangle'' (Ptr (Obj_bool is_right)) ctx2))
                | Ptr _ \<Rightarrow> (Inl BadCast, ctx2))))"

definition CheckRightAngleAgent_execute ::
  "MemoryContext \<Rightarrow> (failure + sc_result) \<times> MemoryContext" where
  "CheckRightAngleAgent_execute ctx =
     (case CheckRightAngleAgent_body ctx of
        (Inl f, ctx') \<Rightarrow> (Inl f, ctx')
      | (Inr r, ctx') \<Rightarrow>
          (Inr r, ctx'\<lparr>data_cpp := (data_cpp ctx')(''is_right_triangle'' \<mapsto> Dangling)\<rparr>))"

definition TriangleProcessingAgent_execute ::
  "MemoryContext \<Rightarrow> (failure + sc_result) \<times> MemoryContext" where
  "TriangleProcessingAgent_execute ctx =
     (case CalculateAnglesAgent_execute ctx of
        (Inl f, ctx1) \<Rightarrow> (Inl f, ctx1)
      | (Inr r1, ctx1) \<Rightarrow>
          if r1 \<noteq> SC_RESULT_OK then (Inr SC_RESULT_ERROR, ctx1)
          else (case CheckRightAngleAgent_execute ctx1 of
                  (Inl f, ctx2) \<Rightarrow> (Inl f, ctx2)
                | (Inr r2, ctx2) \<Rightarrow>
                    if r2 \<noteq> SC_RESULT_OK then (Inr SC_RESULT_ERROR, ctx2)
                    else (case get T_bool ''is_right_triangle'' ctx2 of
                            (Inl f, ctx3) \<Rightarrow> (Inl f, ctx3)
                          | (Inr NULL, ctx3) \<Rightarrow> (Inl NullDereference, ctx3)
                          | (Inr Dangling, ctx3) \<Rightarrow> (Inl DanglingDereference, ctx3)
                          | (Inr (Ptr (Obj_bool is_right)), ctx3) \<Rightarrow> (Inr SC_RESULT_OK, ctx3)
                          | (Inr (Ptr _), ctx3) \<Rightarrow> (Inl BadCast, ctx3))))"

subsection \<open>The harness: \<^verbatim>\<open>main\<close>\<close>

text \<open>
  The first test triangle of \<^verbatim>\<open>main\<close> and the way \<^verbatim>\<open>main\<close> populates the store before it
  runs the pipeline: C initialises with capacity 10 and stores the triangle and an
  \<^verbatim>\<open>int\<close> dummy under \<^verbatim>\<open>rules_set\<close>; C++ stores the triangle and a one-entry rule map.
  The objects stored are variables of \<^verbatim>\<open>main\<close>, alive for the whole run.
\<close>

definition triangle1 :: triangle where
  "triangle1 = \<lparr>angles = [\<lparr>value = Finite 90, is_known = True\<rparr>,
                          \<lparr>value = Finite 45, is_known = True\<rparr>,
                          \<lparr>value = Finite 0, is_known = False\<rparr>]\<rparr>"

definition main_populate :: "triangle \<Rightarrow> failure + sc_memory_context" where
  "main_populate tri =
     (case sc_memory_store (sc_memory_init 10) ''input_triangle'' (Ptr (Obj_triangle tri)) ''triangle'' of
        Inl f \<Rightarrow> Inl f
      | Inr ctx \<Rightarrow> sc_memory_store ctx ''rules_set'' (Ptr (Obj_int 0)) ''rules_set'')"

definition main_populate_cpp :: "triangle \<Rightarrow> MemoryContext" where
  "main_populate_cpp tri =
     store T_rules ''rules_set'' (Ptr (Obj_rules [(''right_angle_threshold'', ''90.0'')]))
       (store T_Triangle ''input_triangle'' (Ptr (Obj_triangle tri))
          \<lparr>data_cpp = Map.empty, types = Map.empty\<rparr>)"

section \<open>Properties of the arithmetic, the loops and the stores\<close>

subsection \<open>Binary64 rounding\<close>

lemma pow2_pos: "0 < pow2 k"
  by (simp add: pow2_def)

lemma pow2_powr: "pow2 k = 2 powr real_of_int k"
  by (simp add: pow2_def powr_real_of_int field_simps)

lemma pow2_mono: "k \<le> l \<Longrightarrow> pow2 k \<le> pow2 l"
  by (simp add: pow2_powr)

lemma floor_log2:
  assumes "pow2 n \<le> \<bar>x\<bar>" "\<bar>x\<bar> < pow2 (n + 1)"
  shows "\<lfloor>log 2 \<bar>x\<bar>\<rfloor> = n"
proof -
  have pos: "0 < \<bar>x\<bar>"
    using assms(1) pow2_pos[of n] by linarith
  have "real_of_int n \<le> log 2 \<bar>x\<bar>"
    using assms(1) pos by (simp add: pow2_powr le_log_iff)
  moreover have "log 2 \<bar>x\<bar> < real_of_int n + 1"
    using assms(2) pos by (simp add: pow2_powr log_less_iff)
  ultimately show ?thesis
    by linarith
qed

lemma round_ties_even_error: "\<bar>of_int (round_ties_even y) - y\<bar> \<le> 1 / 2"
  unfolding round_ties_even_def Let_def by (auto; linarith)

lemma round_ties_even_Ints: "y \<in> \<int> \<Longrightarrow> of_int (round_ties_even y) = y"
  by (auto simp: round_ties_even_def Let_def elim!: Ints_cases)

lemma dbl_round_eval:
  assumes "pow2 n \<le> \<bar>x\<bar>" "\<bar>x\<bar> < pow2 (n + 1)"
  shows "dbl_round x =
     (let q = pow2 (max (n - 52) (- 1074));
          r = of_int (round_ties_even (x / q)) * q
      in if 2 ^ 1024 \<le> \<bar>r\<bar> then (if 0 < r then PlusInf else MinusInf) else Finite r)"
proof -
  have "x \<noteq> 0"
    using assms(1) pow2_pos[of n] by auto
  then show ?thesis
    by (simp add: dbl_round_def floor_log2[OF assms])
qed

lemma dbl_round_quantum_error:
  assumes "0 < q"
  shows "\<bar>of_int (round_ties_even (x / q)) * q - x\<bar> \<le> q / 2"
proof -
  have "of_int (round_ties_even (x / q)) * q - x = (of_int (round_ties_even (x / q)) - x / q) * q"
    using assms by (simp add: field_simps)
  then have "\<bar>of_int (round_ties_even (x / q)) * q - x\<bar>
      = \<bar>of_int (round_ties_even (x / q)) - x / q\<bar> * q"
    using assms by (simp add: abs_mult)
  also have "\<dots> \<le> (1 / 2) * q"
    using assms round_ties_even_error[of "x / q"] by (intro mult_right_mono) simp_all
  finally show ?thesis
    by simp
qed

lemma dbl_round_small:
  assumes "\<bar>x\<bar> < 512"
  shows "\<exists>r. dbl_round x = Finite r \<and> \<bar>r - x\<bar> \<le> 1 / 2 ^ 45"
proof (cases "x = 0")
  case True
  then show ?thesis
    by (simp add: dbl_round_def)
next
  case False
  define q where "q = pow2 (max (\<lfloor>log 2 \<bar>x\<bar>\<rfloor> - 52) (- 1074))"
  define r where "r = of_int (round_ties_even (x / q)) * q"
  have "log 2 \<bar>x\<bar> < 9"
    using assms False by (simp add: log_less_iff)
  then have "\<lfloor>log 2 \<bar>x\<bar>\<rfloor> \<le> 8"
    by linarith
  then have "max (\<lfloor>log 2 \<bar>x\<bar>\<rfloor> - 52) (- 1074) \<le> - 44"
    by simp
  then have "q \<le> pow2 (- 44)"
    unfolding q_def by (rule pow2_mono)
  then have q: "q \<le> 1 / 2 ^ 44"
    by (simp add: pow2_def)
  have "\<bar>r - x\<bar> \<le> q / 2"
    unfolding r_def by (rule dbl_round_quantum_error) (simp add: q_def pow2_pos)
  with q have err: "\<bar>r - x\<bar> \<le> 1 / 2 ^ 45"
    by simp
  then have "\<bar>r\<bar> < 513"
    using assms by (simp add: abs_if split: if_splits)
  then have "\<not> 2 ^ 1024 \<le> \<bar>r\<bar>"
    by simp
  then have "dbl_round x = Finite r"
    using False by (simp add: dbl_round_def r_def q_def Let_def)
  with err show ?thesis
    by blast
qed

lemma dbl_round_exact:
  assumes "x \<in> \<int>" "\<bar>x\<bar> < 2 ^ 53"
  shows "dbl_round x = Finite x"
proof (cases "x = 0")
  case True
  then show ?thesis
    by (simp add: dbl_round_def)
next
  case False
  define e where "e = \<lfloor>log 2 \<bar>x\<bar>\<rfloor>"
  define q where "q = pow2 (max (e - 52) (- 1074))"
  from assms(1) False have one: "1 \<le> \<bar>x\<bar>"
    by (auto elim!: Ints_cases)
  then have "0 \<le> log 2 \<bar>x\<bar>"
    by simp
  then have e0: "0 \<le> e"
    by (simp add: e_def)
  have "log 2 \<bar>x\<bar> < 53"
    using assms(2) one by (simp add: log_less_iff)
  then have e52: "e \<le> 52"
    unfolding e_def by linarith
  have q: "q = 1 / 2 ^ nat (52 - e)"
    using e0 e52 by (auto simp: q_def pow2_def max_def)
  have "x / q = x * 2 ^ nat (52 - e)"
    by (simp add: q)
  then have "x / q \<in> \<int>"
    using assms(1) by simp
  then have "of_int (round_ties_even (x / q)) * q = x"
    using round_ties_even_Ints[of "x / q"] by (simp add: q)
  moreover have "\<not> (2::real) ^ 1024 \<le> \<bar>x\<bar>"
  proof -
    have "(2::real) ^ 53 \<le> 2 ^ 1024"
      by (rule power_increasing) simp_all
    with assms(2) show ?thesis
      by linarith
  qed
  ultimately show ?thesis
    using False by (simp add: dbl_round_def Let_def flip: e_def q_def)
qed

lemma round_ties_even_eval:
  "of_int m - 1 / 2 < y \<Longrightarrow> y < of_int m + 1 / 2 \<Longrightarrow> round_ties_even y = m"
proof -
  assume a: "of_int m - 1 / 2 < y" "y < of_int m + 1 / 2"
  have "\<lfloor>y\<rfloor> = m \<or> \<lfloor>y\<rfloor> = m - 1"
    using a by linarith
  then show ?thesis
    using a unfolding round_ties_even_def Let_def by (auto; linarith)
qed

lemma dbl_round_1e17: "dbl_round 100000000000000000 = Finite 100000000000000000"
proof -
  have "round_ties_even (100000000000000000 / 16) = 6250000000000000"
    by (rule round_ties_even_eval) simp_all
  then show ?thesis
    by (subst dbl_round_eval[where n = 56]) (simp_all add: pow2_def)
qed

lemma dbl_round_180_minus_1e17:
  "dbl_round (- 99999999999999820) = Finite (- 99999999999999824)"
proof -
  have "round_ties_even (- 99999999999999820 / 16) = - 6249999999999989"
    by (rule round_ties_even_eval) simp_all
  then show ?thesis
    by (subst dbl_round_eval[where n = 56]) (simp_all add: pow2_def)
qed

lemma dbl_round_0001: "dbl_round 0.001 = Finite (1152921504606847 / 2 ^ 60)"
proof -
  have "round_ties_even (0.001 / (1 / 2 ^ 62)) = 4611686018427388"
    by (rule round_ties_even_eval) simp_all
  then show ?thesis
    by (subst dbl_round_eval[where n = "- 10"]) (simp_all add: pow2_def)
qed

lemma dbl_round_overflow: "dbl_round (2 ^ 1024) = PlusInf"
proof -
  have "(2::real) ^ 1024 / 2 ^ 972 = 2 ^ 52"
    by (simp add: power_diff)
  then have "(2::real) ^ 1024 / 2 ^ 972 = of_int (2 ^ 52)"
    by simp
  then have "real_of_int (round_ties_even (2 ^ 1024 / 2 ^ 972)) = 2 ^ 52"
    using round_ties_even_Ints[of "(2::real) ^ 1024 / 2 ^ 972"] by simp
  then have r: "real_of_int (round_ties_even (2 ^ 1024 / 2 ^ 972)) * 2 ^ 972 = 2 ^ 1024"
    by (simp add: power_add[symmetric])
  have "dbl_round (2 ^ 1024) =
     (let q = pow2 (max (1024 - 52) (- 1074));
          r = of_int (round_ties_even (2 ^ 1024 / q)) * q
      in if 2 ^ 1024 \<le> \<bar>r\<bar> then (if 0 < r then PlusInf else MinusInf) else Finite r)"
    by (rule dbl_round_eval) (simp_all add: pow2_def)
  also have "pow2 (max (1024 - 52) (- 1074)) = 2 ^ 972"
    by (simp add: pow2_def)
  finally show ?thesis
    unfolding Let_def r by simp
qed

lemma double_add_overflow: "double_add (Finite (2 ^ 1023)) (Finite (2 ^ 1023)) = PlusInf"
proof -
  have "(2::real) ^ 1023 + 2 ^ 1023 = 2 ^ 1024"
    by simp
  then show ?thesis
    by (simp only: double_add.simps dbl_round_overflow)
qed

text \<open>
  An overflow: with the known angles \<open>2 ^ 1023\<close> and \<open>2 ^ 1023\<close> the sum of the known
  values is plus infinity, the completed angle is minus infinity, and the binary64 sum of
  the three values is NaN.
\<close>

lemma dbl_round_2_1023: "dbl_round (2 ^ 1023) = Finite (2 ^ 1023)"
proof -
  have "(2::real) ^ 1023 / 2 ^ 971 = of_int (2 ^ 52)"
    by (simp add: power_diff)
  then have "real_of_int (round_ties_even (2 ^ 1023 / 2 ^ 971)) = 2 ^ 52"
    using round_ties_even_Ints[of "(2::real) ^ 1023 / 2 ^ 971"] by simp
  then have r: "real_of_int (round_ties_even (2 ^ 1023 / 2 ^ 971)) * 2 ^ 971 = 2 ^ 1023"
    by (simp add: power_add[symmetric])
  have "dbl_round (2 ^ 1023) =
     (let q = pow2 (max (1023 - 52) (- 1074));
          r = of_int (round_ties_even (2 ^ 1023 / q)) * q
      in if 2 ^ 1024 \<le> \<bar>r\<bar> then (if 0 < r then PlusInf else MinusInf) else Finite r)"
    by (rule dbl_round_eval) (simp_all add: pow2_def)
  also have "pow2 (max (1023 - 52) (- 1074)) = 2 ^ 971"
    by (simp add: pow2_def)
  finally show ?thesis
    unfolding Let_def r by simp
qed

lemma completion_overflows:
  "double_add (double_add (Finite 0) (Finite (2 ^ 1023))) (Finite (2 ^ 1023)) = PlusInf"
  "double_sub (Finite 180) PlusInf = MinusInf"
  "double_add (double_add (Finite (2 ^ 1023)) (Finite (2 ^ 1023))) MinusInf = NaN"
proof -
  have "double_add (Finite 0) (Finite (2 ^ 1023)) = Finite (2 ^ 1023)"
    by (simp only: double_add.simps add_0 dbl_round_2_1023)
  then show "double_add (double_add (Finite 0) (Finite (2 ^ 1023))) (Finite (2 ^ 1023)) = PlusInf"
    by (simp only: double_add_overflow)
  show "double_sub (Finite 180) PlusInf = MinusInf"
    by (simp add: double_sub_def)
  show "double_add (double_add (Finite (2 ^ 1023)) (Finite (2 ^ 1023))) MinusInf = NaN"
    unfolding double_add_overflow by simp
qed

text \<open>
  No overflow and three small rounding errors when the known angles are between 0 and
  180.
\<close>

lemma completion_sum:
  assumes "0 \<le> a" "a \<le> 180" "0 \<le> b" "b \<le> 180"
  shows "\<exists>t. double_sub (Finite 180) (double_add (double_add (Finite 0) (Finite a)) (Finite b))
             = Finite t
           \<and> \<bar>a + b + t - 180\<bar> \<le> 1 / 2 ^ 43"
proof -
  obtain s0 where s0: "dbl_round (0 + a) = Finite s0" "\<bar>s0 - (0 + a)\<bar> \<le> 1 / 2 ^ 45"
    using dbl_round_small[of "0 + a"] assms by auto
  have b0: "- 1 \<le> s0" "s0 \<le> 181"
    using s0(2) assms by (simp_all add: abs_if split: if_splits)
  then have "\<bar>s0 + b\<bar> < 512"
    using assms by (simp add: abs_if split: if_splits)
  then obtain s where s: "dbl_round (s0 + b) = Finite s" "\<bar>s - (s0 + b)\<bar> \<le> 1 / 2 ^ 45"
    using dbl_round_small[of "s0 + b"] by auto
  have "- 2 \<le> s" "s \<le> 362"
    using s(2) b0 assms by (simp_all add: abs_if split: if_splits)
  then have "\<bar>180 + - s\<bar> < 512"
    by (simp add: abs_if split: if_splits)
  then obtain t where t: "dbl_round (180 + - s) = Finite t" "\<bar>t - (180 + - s)\<bar> \<le> 1 / 2 ^ 45"
    using dbl_round_small[of "180 + - s"] by auto
  have run: "double_sub (Finite 180) (double_add (double_add (Finite 0) (Finite a)) (Finite b))
      = Finite t"
    using s0(1) s(1) t(1) by (simp add: double_sub_def)
  have "a + b + t - 180 = - (s0 - (0 + a)) - (s - (s0 + b)) + (t - (180 + - s))"
    by simp
  then have "\<bar>a + b + t - 180\<bar> \<le> 3 / 2 ^ 45"
    using s0(2) s(2) t(2) by linarith
  also have "\<dots> \<le> 1 / 2 ^ 43"
    by simp
  finally show ?thesis
    using run by blast
qed

lemma dbl_round_zero: "dbl_round 0 = Finite 0"
  by (simp add: dbl_round_def)


lemma no_right_angle_at_45:
  "\<not> double_less (fabs (double_sub (Finite 45) (Finite 90))) (dbl_round 0.001)"
  unfolding dbl_round_0001 by (simp add: double_sub_def dbl_round_exact)

subsection \<open>The loops\<close>

lemma count_and_sum_eq:
  "count_and_sum as c s =
     (c + int (length (filter (\<lambda>a. \<not> is_known a) as)),
      foldl double_add s (map value (filter is_known as)))"
  by (induction as arbitrary: c s) simp_all

lemma fill_unknown_first:
  "i < length as \<Longrightarrow> \<not> is_known (as ! i) \<Longrightarrow> \<forall>j<i. is_known (as ! j) \<Longrightarrow>
     fill_unknown v as = Some (as[i := \<lparr>value = v, is_known = True\<rparr>])"
proof (induction as arbitrary: i)
  case Nil
  then show ?case by simp
next
  case (Cons a as)
  show ?case
  proof (cases i)
    case 0
    with Cons.prems show ?thesis by simp
  next
    case (Suc k)
    with Cons.prems have "is_known a" by auto
    moreover have "fill_unknown v as = Some (as[k := \<lparr>value = v, is_known = True\<rparr>])"
      using Cons.prems Suc by (intro Cons.IH) auto
    ultimately show ?thesis using Suc by simp
  qed
qed

lemma fill_unknown_keeps_known:
  "fill_unknown v as = Some bs \<Longrightarrow> list_all2 (\<lambda>a b. is_known a \<longrightarrow> b = a) as bs"
  by (induction as arbitrary: bs) (auto split: if_splits simp: list.rel_refl)

lemma only_unknown_count:
  "i < length as \<Longrightarrow> \<not> is_known (as ! i) \<Longrightarrow> \<forall>j<length as. j \<noteq> i \<longrightarrow> is_known (as ! j) \<Longrightarrow>
     length (filter (\<lambda>a. \<not> is_known a) as) = 1"
proof (induction as arbitrary: i)
  case Nil
  then show ?case by simp
next
  case (Cons a as)
  show ?case
  proof (cases i)
    case 0
    have "\<forall>b \<in> set as. is_known b"
    proof
      fix b assume "b \<in> set as"
      then obtain k where "k < length as" "as ! k = b" by (auto simp: in_set_conv_nth)
      with Cons.prems(3)[rule_format, of "Suc k"] 0 show "is_known b" by auto
    qed
    then have "filter (\<lambda>a. \<not> is_known a) as = []" by (simp add: filter_empty_conv)
    with Cons.prems 0 show ?thesis by simp
  next
    case (Suc k)
    with Cons.prems(3)[rule_format, of 0] have "is_known a" by simp
    moreover have "length (filter (\<lambda>a. \<not> is_known a) as) = 1"
    proof (rule Cons.IH[of k])
      show "k < length as" using Cons.prems Suc by simp
      show "\<not> is_known (as ! k)" using Cons.prems Suc by simp
      show "\<forall>j<length as. j \<noteq> k \<longrightarrow> is_known (as ! j)"
      proof (intro allI impI)
        fix j assume "j < length as" "j \<noteq> k"
        with Cons.prems(3)[rule_format, of "Suc j"] Suc show "is_known (as ! j)" by simp
      qed
    qed
    ultimately show ?thesis by simp
  qed
qed

lemma all_known_update:
  "i < length as \<Longrightarrow> \<forall>j<length as. j \<noteq> i \<longrightarrow> is_known (as ! j) \<Longrightarrow>
     \<forall>b \<in> set (as[i := \<lparr>value = v, is_known = True\<rparr>]). is_known b"
  by (auto simp: in_set_conv_nth nth_list_update)


lemma calculate_angles_one_unknown:
  assumes "i < length (angles tri)" "\<not> is_known (angles tri ! i)"
    and "\<forall>j<length (angles tri). j \<noteq> i \<longrightarrow> is_known (angles tri ! j)"
  shows "calculate_angles tri =
     (SC_RESULT_OK,
      tri\<lparr>angles := (angles tri)
        [i := \<lparr>value = double_sub (Finite 180)
                 (foldl double_add (Finite 0) (map value (filter is_known (angles tri)))),
               is_known = True\<rparr>]\<rparr>)"
proof -
  have one: "length (filter (\<lambda>a. \<not> is_known a) (angles tri)) = 1"
    using assms by (rule only_unknown_count)
  have first: "\<forall>j<i. is_known (angles tri ! j)"
    using assms(1,3) by auto
  show ?thesis
    using one fill_unknown_first[OF assms(1,2) first]
    by (simp add: calculate_angles_def count_and_sum_eq)
qed

lemma calculate_angles_not_one:
  "length (filter (\<lambda>a. \<not> is_known a) (angles tri)) \<noteq> 1 \<Longrightarrow>
     calculate_angles tri = (SC_RESULT_ERROR, tri)"
  by (simp add: calculate_angles_def count_and_sum_eq)

lemma calculate_angles_error_same:
  "calculate_angles tri = (SC_RESULT_ERROR, tri') \<Longrightarrow> tri' = tri"
  by (auto simp: calculate_angles_def count_and_sum_eq split: if_splits option.splits)

lemma calculate_angles_keeps_known:
  "calculate_angles tri = (r, tri') \<Longrightarrow>
     list_all2 (\<lambda>a b. is_known a \<longrightarrow> b = a) (angles tri) (angles tri')"
  by (auto simp: calculate_angles_def count_and_sum_eq list.rel_refl fill_unknown_keeps_known
      split: if_splits option.splits)

subsection \<open>The C store\<close>

lemma write_through_same:
  "get_loop es a t = Inr (Ptr obj) \<Longrightarrow> write_through es a obj = es"
  by (induction es) (auto split: if_splits)

lemma get_loop_write_through:
  "get_loop es a t = Inr (Ptr obj) \<Longrightarrow> get_loop (write_through es a obj') a t = Inr (Ptr obj')"
  by (induction es) (auto split: if_splits)

lemma update_existing_None: "update_existing es a d t = None \<longleftrightarrow> (\<forall>e \<in> set es. addr e \<noteq> a)"
  by (induction es) auto

lemma update_existing_length: "update_existing es a d t = Some es' \<Longrightarrow> length es' = length es"
  by (induction es arbitrary: es') (auto split: if_splits)

lemma get_loop_update_existing:
  "update_existing es a d t = Some es' \<Longrightarrow> get_loop es' a t = Inr d"
  by (induction es arbitrary: es') (auto split: if_splits)

lemma get_loop_update_existing_other:
  "update_existing es a d t = Some es' \<Longrightarrow> b \<noteq> a \<Longrightarrow> get_loop es' b t' = get_loop es b t'"
  by (induction es arbitrary: es') (auto split: if_splits)

lemma update_existing_again:
  "update_existing es a d t = Some es' \<Longrightarrow> update_existing es' a d t = Some es'"
  by (induction es arbitrary: es') (auto split: if_splits)

lemma get_loop_append_new:
  "\<forall>e \<in> set es. addr e \<noteq> a \<Longrightarrow>
     get_loop (es @ [\<lparr>addr = a, data = d, type = t\<rparr>]) a t = Inr d"
  by (induction es) auto

lemma get_loop_append_other:
  "b \<noteq> a \<Longrightarrow> get_loop (es @ [\<lparr>addr = a, data = d, type = t\<rparr>]) b t' = get_loop es b t'"
  by (induction es) auto

lemma update_existing_append_new:
  "\<forall>e \<in> set es. addr e \<noteq> a \<Longrightarrow>
     update_existing (es @ [\<lparr>addr = a, data = d, type = t\<rparr>]) a d t
       = Some (es @ [\<lparr>addr = a, data = d, type = t\<rparr>])"
  by (induction es) auto

lemma get_loop_find:
  "get_loop es a t =
     (case find (\<lambda>e. addr e = a) es of
        None \<Rightarrow> Inr NULL
      | Some e \<Rightarrow> if type e \<noteq> t then Inl TypeMismatch else Inr (data e))"
  by (induction es) auto

text \<open>A store succeeds when the array has room after the doubling.\<close>

lemma sc_memory_store_room:
  assumes "length (entries ctx) \<le> capacity ctx" "0 < capacity ctx"
  shows "\<exists>ctx'. sc_memory_store ctx a d t = Inr ctx'
           \<and> sc_memory_get ctx' a t = Inr d
           \<and> (\<forall>b t'. b \<noteq> a \<longrightarrow> sc_memory_get ctx' b t' = sc_memory_get ctx b t')
           \<and> length (entries ctx') \<le> capacity ctx' \<and> 0 < capacity ctx'"
proof (cases "update_existing (entries ctx) a d t")
  case None
  then have fresh: "\<forall>e \<in> set (entries ctx). addr e \<noteq> a"
    by (simp add: update_existing_None)
  show ?thesis
    using assms None fresh
    by (auto simp: sc_memory_store_def sc_memory_get_def Let_def
        get_loop_append_new get_loop_append_other)
next
  case (Some es)
  then show ?thesis
    using assms
    by (auto simp: sc_memory_store_def sc_memory_get_def
        get_loop_update_existing get_loop_update_existing_other update_existing_length)
qed

lemma sc_memory_store_again:
  "sc_memory_store ctx a d t = Inr ctx' \<Longrightarrow> sc_memory_store ctx' a d t = Inr ctx'"
proof (cases "update_existing (entries ctx) a d t")
  case None
  assume run: "sc_memory_store ctx a d t = Inr ctx'"
  from None have fresh: "\<forall>e \<in> set (entries ctx). addr e \<noteq> a"
    by (simp add: update_existing_None)
  from run None show ?thesis
    by (auto simp: sc_memory_store_def Let_def update_existing_append_new[OF fresh]
        split: if_splits)
next
  case (Some es)
  assume run: "sc_memory_store ctx a d t = Inr ctx'"
  with Some have "ctx' = ctx\<lparr>entries := es\<rparr>"
    by (simp add: sc_memory_store_def)
  then show ?thesis
    using update_existing_again[OF Some] by (simp add: sc_memory_store_def)
qed

subsection \<open>The C++ store and the runs of the angle agent\<close>

lemma get_present:
  "types ctx a = Some (Name_of T) \<Longrightarrow> data_cpp ctx a = Some p \<Longrightarrow> get T a ctx = (Inr p, ctx)"
  by (simp add: get_def Let_def fun_upd_idem)

lemma calculate_angles_agent_execute_run:
  "sc_memory_get ctx ''input_triangle'' ''triangle'' = Inr (Ptr (Obj_triangle tri)) \<Longrightarrow>
     calculate_angles_agent_execute ctx =
       Inr (fst (calculate_angles tri),
            ctx\<lparr>entries := write_through (entries ctx) ''input_triangle''
                    (Obj_triangle (snd (calculate_angles tri)))\<rparr>)"
  by (simp add: calculate_angles_agent_execute_def split: prod.splits)

lemma CalculateAnglesAgent_execute_run:
  "types ctx ''input_triangle'' = Some (Name_of T_Triangle) \<Longrightarrow>
   data_cpp ctx ''input_triangle'' = Some (Ptr (Obj_triangle tri)) \<Longrightarrow>
   types ctx ''rules_set'' = Some (Name_of T_rules) \<Longrightarrow>
   data_cpp ctx ''rules_set'' = Some rules \<Longrightarrow>
     CalculateAnglesAgent_execute ctx =
       (Inr (fst (calculate_angles tri)),
        ctx\<lparr>data_cpp := (data_cpp ctx)
               (''input_triangle'' \<mapsto> Ptr (Obj_triangle (snd (calculate_angles tri))))\<rparr>)"
  by (simp add: CalculateAnglesAgent_execute_def get_present split: prod.splits)

lemma calculate_angles_agent_execute_result:
  assumes "sc_memory_get ctx ''input_triangle'' ''triangle'' = Inr (Ptr (Obj_triangle tri))"
    and "calculate_angles tri = (r, tri')"
  shows "\<exists>ctx'. calculate_angles_agent_execute ctx = Inr (r, ctx')
           \<and> sc_memory_get ctx' ''input_triangle'' ''triangle'' = Inr (Ptr (Obj_triangle tri'))"
proof -
  have "get_loop (entries ctx) ''input_triangle'' ''triangle'' = Inr (Ptr (Obj_triangle tri))"
    using assms(1) by (simp only: sc_memory_get_def)
  then have "get_loop (write_through (entries ctx) ''input_triangle'' (Obj_triangle tri'))
        ''input_triangle'' ''triangle'' = Inr (Ptr (Obj_triangle tri'))"
    by (rule get_loop_write_through)
  then show ?thesis
    using calculate_angles_agent_execute_run[OF assms(1)] assms(2)
    by (simp add: sc_memory_get_def)
qed

lemma CalculateAnglesAgent_execute_result:
  assumes "types cctx ''input_triangle'' = Some (Name_of T_Triangle)"
    "data_cpp cctx ''input_triangle'' = Some (Ptr (Obj_triangle tri))"
    "types cctx ''rules_set'' = Some (Name_of T_rules)"
    "data_cpp cctx ''rules_set'' = Some rules"
    and "calculate_angles tri = (r, tri')"
  shows "fst (CalculateAnglesAgent_execute cctx) = Inr r
         \<and> data_cpp (snd (CalculateAnglesAgent_execute cctx)) ''input_triangle''
               = Some (Ptr (Obj_triangle tri'))"
  using CalculateAnglesAgent_execute_run[OF assms(1-4)] assms(5) by simp

lemma main_populate_eq:
  "main_populate tri =
     Inr \<lparr>entries = [\<lparr>addr = ''input_triangle'', data = Ptr (Obj_triangle tri), type = ''triangle''\<rparr>,
                     \<lparr>addr = ''rules_set'', data = Ptr (Obj_int 0), type = ''rules_set''\<rparr>],
          capacity = 10\<rparr>"
  by (simp add: main_populate_def sc_memory_store_def sc_memory_init_def)

lemma main_populate_cpp_holds:
  "types (main_populate_cpp tri) ''input_triangle'' = Some (Name_of T_Triangle)"
  "data_cpp (main_populate_cpp tri) ''input_triangle'' = Some (Ptr (Obj_triangle tri))"
  "types (main_populate_cpp tri) ''rules_set'' = Some (Name_of T_rules)"
  "data_cpp (main_populate_cpp tri) ''rules_set''
     = Some (Ptr (Obj_rules [(''right_angle_threshold'', ''90.0'')]))"
  by (simp_all add: main_populate_cpp_def store_def)

subsection \<open>Runs of the agents on a populated store\<close>


lemma MemoryContext_data_same:
  "data_cpp ctx a = Some p \<Longrightarrow> ctx\<lparr>data_cpp := (data_cpp ctx)(a \<mapsto> p)\<rparr> = (ctx :: MemoryContext)"
  by (simp add: fun_upd_idem)

lemma calculate_angles_agent_execute_error:
  assumes "sc_memory_get ctx ''input_triangle'' ''triangle'' = Inr (Ptr (Obj_triangle tri))"
    and "calculate_angles tri = (SC_RESULT_ERROR, tri')"
  shows "calculate_angles_agent_execute ctx = Inr (SC_RESULT_ERROR, ctx)"
proof -
  have same: "tri' = tri"
    using assms(2) by (rule calculate_angles_error_same)
  have "get_loop (entries ctx) ''input_triangle'' ''triangle'' = Inr (Ptr (Obj_triangle tri))"
    using assms(1) by (simp only: sc_memory_get_def)
  then have "write_through (entries ctx) ''input_triangle'' (Obj_triangle tri) = entries ctx"
    by (rule write_through_same)
  then show ?thesis
    using calculate_angles_agent_execute_run[OF assms(1)] assms(2) same by simp
qed

lemma CalculateAnglesAgent_execute_error:
  assumes "types cctx ''input_triangle'' = Some (Name_of T_Triangle)"
    "data_cpp cctx ''input_triangle'' = Some (Ptr (Obj_triangle tri))"
    "types cctx ''rules_set'' = Some (Name_of T_rules)"
    "data_cpp cctx ''rules_set'' = Some rules"
    and "calculate_angles tri = (SC_RESULT_ERROR, tri')"
  shows "CalculateAnglesAgent_execute cctx = (Inr SC_RESULT_ERROR, cctx)"
proof -
  have same: "tri' = tri"
    using assms(5) by (rule calculate_angles_error_same)
  show ?thesis
    using CalculateAnglesAgent_execute_run[OF assms(1-4)] assms(5) same
      MemoryContext_data_same[OF assms(2)]
    by simp
qed

subsection \<open>Frames and repeated runs\<close>

lemma calculate_angles_agent_execute_InrD:
  "calculate_angles_agent_execute ctx = Inr x \<Longrightarrow>
     \<exists>tri. sc_memory_get ctx ''input_triangle'' ''triangle'' = Inr (Ptr (Obj_triangle tri))"
  by (auto simp: calculate_angles_agent_execute_def split: sum.splits pointer.splits object.splits)

lemma calculate_angles_agent_execute_error_same:
  assumes "calculate_angles_agent_execute ctx = Inr (SC_RESULT_ERROR, ctx1)"
  shows "ctx1 = ctx"
proof -
  from calculate_angles_agent_execute_InrD[OF assms] obtain tri
    where g: "sc_memory_get ctx ''input_triangle'' ''triangle'' = Inr (Ptr (Obj_triangle tri))"
    by blast
  obtain r tri' where c: "calculate_angles tri = (r, tri')"
    by (cases "calculate_angles tri")
  from calculate_angles_agent_execute_run[OF g] assms c have "r = SC_RESULT_ERROR"
    by simp
  with c have "calculate_angles_agent_execute ctx = Inr (SC_RESULT_ERROR, ctx)"
    using calculate_angles_agent_execute_error[OF g] by blast
  with assms show ?thesis
    by simp
qed

lemma get_other_key:
  "b \<noteq> a \<Longrightarrow> data_cpp (snd (get T a ctx)) b = data_cpp ctx b
     \<and> types (snd (get T a ctx)) b = types ctx b"
  by (simp add: get_def Let_def)

lemma CalculateAnglesAgent_execute_other_key:
  assumes "b \<noteq> ''input_triangle''" "b \<noteq> ''rules_set''"
  shows "data_cpp (snd (CalculateAnglesAgent_execute ctx)) b = data_cpp ctx b
     \<and> types (snd (CalculateAnglesAgent_execute ctx)) b = types ctx b"
proof -
  obtain r1 c1 where g1: "get T_Triangle ''input_triangle'' ctx = (r1, c1)"
    by (cases "get T_Triangle ''input_triangle'' ctx")
  obtain r2 c2 where g2: "get T_rules ''rules_set'' c1 = (r2, c2)"
    by (cases "get T_rules ''rules_set'' c1")
  have f1: "data_cpp c1 b = data_cpp ctx b \<and> types c1 b = types ctx b"
    using get_other_key[OF assms(1), of T_Triangle ctx] g1 by simp
  have f2: "data_cpp c2 b = data_cpp c1 b \<and> types c2 b = types c1 b"
    using get_other_key[OF assms(2), of T_rules c1] g2 by simp
  show ?thesis
    using f1 f2 assms(1)
    by (simp add: CalculateAnglesAgent_execute_def g1 g2
        split: sum.splits pointer.splits object.splits prod.splits)
qed

lemma TriangleProcessingAgent_execute_stops:
  "fst (CalculateAnglesAgent_execute ctx) \<noteq> Inr SC_RESULT_OK \<Longrightarrow>
     TriangleProcessingAgent_execute ctx = CalculateAnglesAgent_execute ctx"
proof -
  assume h: "fst (CalculateAnglesAgent_execute ctx) \<noteq> Inr SC_RESULT_OK"
  obtain r c where run: "CalculateAnglesAgent_execute ctx = (r, c)"
    by (cases "CalculateAnglesAgent_execute ctx")
  show ?thesis
  proof (cases r)
    case (Inl f)
    then show ?thesis by (simp add: TriangleProcessingAgent_execute_def run)
  next
    case (Inr res)
    with h run have "res = SC_RESULT_ERROR"
      by (cases res) simp_all
    with Inr show ?thesis by (simp add: TriangleProcessingAgent_execute_def run)
  qed
qed

lemma get_keeps_data:
  "data_cpp ctx b = Some p \<Longrightarrow> data_cpp (snd (get T a ctx)) b = Some p"
  by (auto simp: get_def Let_def)

lemma get_returns_data:
  "data_cpp ctx a = Some p \<Longrightarrow> fst (get T a ctx) = Inr q \<Longrightarrow> q = p"
  by (simp add: get_def Let_def split: if_splits)

lemma CalculateAnglesAgent_execute_keeps_known:
  assumes "data_cpp ctx ''input_triangle'' = Some (Ptr (Obj_triangle tri))"
  shows "\<exists>tri'. data_cpp (snd (CalculateAnglesAgent_execute ctx)) ''input_triangle''
             = Some (Ptr (Obj_triangle tri'))
           \<and> list_all2 (\<lambda>a a'. is_known a \<longrightarrow> a' = a) (angles tri) (angles tri')"
proof -
  obtain r1 c1 where g1: "get T_Triangle ''input_triangle'' ctx = (r1, c1)"
    by (cases "get T_Triangle ''input_triangle'' ctx")
  obtain r2 c2 where g2: "get T_rules ''rules_set'' c1 = (r2, c2)"
    by (cases "get T_rules ''rules_set'' c1")
  obtain r tri' where c: "calculate_angles tri = (r, tri')"
    by (cases "calculate_angles tri")
  have d1: "data_cpp c1 ''input_triangle'' = Some (Ptr (Obj_triangle tri))"
    using get_keeps_data[OF assms, of T_Triangle "''input_triangle''"] g1 by simp
  have d2: "data_cpp c2 ''input_triangle'' = Some (Ptr (Obj_triangle tri))"
    using get_keeps_data[OF d1, of T_rules "''rules_set''"] g2 by simp
  have p: "r1 = Inr q \<Longrightarrow> q = Ptr (Obj_triangle tri)" for q
    using get_returns_data[OF assms, of T_Triangle q] g1 by simp
  have same: "list_all2 (\<lambda>a a'. is_known a \<longrightarrow> a' = a) (angles tri) (angles tri)"
    by (simp add: list.rel_refl)
  have kept: "list_all2 (\<lambda>a a'. is_known a \<longrightarrow> a' = a) (angles tri) (angles tri')"
    using c by (rule calculate_angles_keeps_known)
  show ?thesis
  proof (cases r1)
    case (Inl f)
    then show ?thesis
      using d1 same by (simp add: CalculateAnglesAgent_execute_def g1)
  next
    case (Inr q)
    with p have q: "q = Ptr (Obj_triangle tri)" by simp
    show ?thesis
    proof (cases r2)
      case (Inl f)
      then show ?thesis
        using d2 same Inr by (simp add: CalculateAnglesAgent_execute_def g1 g2)
    next
      case (Inr rules)
      then show ?thesis
        using \<open>r1 = Inr q\<close> q c kept by (simp add: CalculateAnglesAgent_execute_def g1 g2)
    qed
  qed
qed

lemma sc_memory_store_other_key:
  assumes "sc_memory_store ctx a d t = Inr ctx'" "b \<noteq> a"
  shows "sc_memory_get ctx' b t' = sc_memory_get ctx b t'"
proof (cases "update_existing (entries ctx) a d t")
  case None
  with assms show ?thesis
    by (auto simp: sc_memory_store_def sc_memory_get_def Let_def get_loop_append_other
        split: if_splits)
next
  case (Some es)
  with assms show ?thesis
    by (auto simp: sc_memory_store_def sc_memory_get_def get_loop_update_existing_other)
qed

subsection \<open>Store and retrieve\<close>

text \<open>
  A store that returns is followed by a successful retrieval of the stored pointer, in C
  and in C++, whatever the key held before. In a C context whose size does not exceed its
  capacity, a store fails exactly when the capacity is zero: doubling zero slots leaves
  zero slots.
\<close>

lemma sc_memory_get_after_store:
  assumes "sc_memory_store ctx a d t = Inr ctx'"
  shows "sc_memory_get ctx' a t = Inr d"
proof (cases "update_existing (entries ctx) a d t")
  case None
  then have "\<forall>e \<in> set (entries ctx). addr e \<noteq> a"
    by (simp add: update_existing_None)
  with assms None show ?thesis
    by (auto simp: sc_memory_store_def sc_memory_get_def Let_def get_loop_append_new
        split: if_splits)
next
  case (Some es)
  with assms show ?thesis
    by (auto simp: sc_memory_store_def sc_memory_get_def get_loop_update_existing)
qed

lemma sc_memory_store_keeps_room:
  assumes "sc_memory_store ctx a d t = Inr ctx'" "length (entries ctx) \<le> capacity ctx"
  shows "length (entries ctx') \<le> capacity ctx'"
proof (cases "update_existing (entries ctx) a d t")
  case None
  with assms show ?thesis
    by (auto simp: sc_memory_store_def Let_def Suc_le_eq split: if_splits)
next
  case (Some es)
  with assms show ?thesis
    by (auto simp: sc_memory_store_def update_existing_length)
qed

lemma sc_memory_store_fails_iff:
  assumes "length (entries ctx) \<le> capacity ctx"
  shows "(\<exists>f. sc_memory_store ctx a d t = Inl f) \<longleftrightarrow> capacity ctx = 0"
proof (cases "update_existing (entries ctx) a d t")
  case None
  with assms show ?thesis
    by (auto simp: sc_memory_store_def Let_def)
next
  case (Some es)
  then have "entries ctx \<noteq> []"
    by (cases "entries ctx") simp_all
  with assms have "capacity ctx \<noteq> 0"
    by (cases "entries ctx") auto
  with Some show ?thesis
    by (simp add: sc_memory_store_def)
qed

lemma get_after_store:
  "get T a (store T a v ctx) = (Inr v, store T a v ctx)"
  by (rule get_present) (simp_all add: store_def)

subsection \<open>The end of a lifetime\<close>

lemma get_loop_end_lifetime:
  "get_loop es a t = Inr (Ptr obj) \<Longrightarrow> get_loop (end_lifetime es a) a t = Inr Dangling"
  by (induction es) (auto split: if_splits)

lemma get_loop_end_lifetime_other:
  "b \<noteq> a \<Longrightarrow> get_loop (end_lifetime es a) b t = get_loop es b t"
  by (induction es) auto

lemma update_existing_end_lifetime:
  "update_existing es a d t = Some es \<Longrightarrow> update_existing (end_lifetime es a) a d t = Some es"
  by (induction es) (auto split: if_splits)

lemma sc_memory_store_fixpoint:
  assumes "sc_memory_store ctx a d t = Inr ctx'"
  shows "update_existing (entries ctx') a d t = Some (entries ctx')"
proof (cases "update_existing (entries ctx) a d t")
  case None
  then have fresh: "\<forall>e \<in> set (entries ctx). addr e \<noteq> a"
    by (simp add: update_existing_None)
  from assms None have "entries ctx' = entries ctx @ [\<lparr>addr = a, data = d, type = t\<rparr>]"
    by (auto simp: sc_memory_store_def Let_def split: if_splits)
  then show ?thesis
    using update_existing_append_new[OF fresh] by simp
next
  case (Some es)
  with assms have "entries ctx' = es"
    by (auto simp: sc_memory_store_def)
  then show ?thesis
    using update_existing_again[OF Some] by simp
qed

subsection \<open>Runs of the right-angle agent\<close>

lemma check_right_angle_agent_body_run:
  "sc_memory_get ctx ''input_triangle'' ''triangle'' = Inr (Ptr (Obj_triangle tri)) \<Longrightarrow>
     check_right_angle_agent_body ctx =
       (case sc_memory_store ctx ''is_right_triangle''
               (Ptr (Obj_int (if right_angle_found (angles tri) then 1 else 0))) ''int'' of
          Inl f \<Rightarrow> Inl f
        | Inr ctx' \<Rightarrow> Inr (SC_RESULT_OK, ctx'))"
  by (simp add: check_right_angle_agent_body_def)

lemma check_right_angle_agent_execute_run:
  assumes "sc_memory_get ctx ''input_triangle'' ''triangle'' = Inr (Ptr (Obj_triangle tri))"
    and "sc_memory_store ctx ''is_right_triangle''
               (Ptr (Obj_int (if right_angle_found (angles tri) then 1 else 0))) ''int'' = Inr ctx'"
  shows "check_right_angle_agent_body ctx = Inr (SC_RESULT_OK, ctx')"
    and "check_right_angle_agent_execute ctx =
       Inr (SC_RESULT_OK, ctx'\<lparr>entries := end_lifetime (entries ctx') ''is_right_triangle''\<rparr>)"
proof -
  show b: "check_right_angle_agent_body ctx = Inr (SC_RESULT_OK, ctx')"
    using check_right_angle_agent_body_run[OF assms(1)] assms(2) by simp
  show "check_right_angle_agent_execute ctx =
       Inr (SC_RESULT_OK, ctx'\<lparr>entries := end_lifetime (entries ctx') ''is_right_triangle''\<rparr>)"
    by (simp add: check_right_angle_agent_execute_def b)
qed

lemma check_right_angle_agent_execute_InrD:
  assumes "check_right_angle_agent_execute ctx = Inr (r, ctx1)"
  shows "\<exists>tri ctx'.
      sc_memory_get ctx ''input_triangle'' ''triangle'' = Inr (Ptr (Obj_triangle tri))
    \<and> sc_memory_store ctx ''is_right_triangle''
               (Ptr (Obj_int (if right_angle_found (angles tri) then 1 else 0))) ''int'' = Inr ctx'
    \<and> r = SC_RESULT_OK
    \<and> ctx1 = ctx'\<lparr>entries := end_lifetime (entries ctx') ''is_right_triangle''\<rparr>"
proof -
  from assms obtain r' ctx' where b: "check_right_angle_agent_body ctx = Inr (r', ctx')"
    and r: "r = r'"
    and c: "ctx1 = ctx'\<lparr>entries := end_lifetime (entries ctx') ''is_right_triangle''\<rparr>"
    by (auto simp: check_right_angle_agent_execute_def split: sum.splits)
  from b obtain tri
    where g: "sc_memory_get ctx ''input_triangle'' ''triangle'' = Inr (Ptr (Obj_triangle tri))"
    by (auto simp: check_right_angle_agent_body_def split: sum.splits pointer.splits object.splits)
  from b check_right_angle_agent_body_run[OF g]
  have "sc_memory_store ctx ''is_right_triangle''
               (Ptr (Obj_int (if right_angle_found (angles tri) then 1 else 0))) ''int'' = Inr ctx'
        \<and> r' = SC_RESULT_OK"
    by (auto split: sum.splits)
  with g r c show ?thesis
    by blast
qed

lemma check_right_angle_agent_execute_keeps_triangle:
  assumes "sc_memory_get ctx ''input_triangle'' ''triangle'' = Inr (Ptr (Obj_triangle tri))"
    and "check_right_angle_agent_execute ctx = Inr (r, ctx1)"
  shows "sc_memory_get ctx1 ''input_triangle'' ''triangle'' = Inr (Ptr (Obj_triangle tri))"
proof -
  from check_right_angle_agent_execute_InrD[OF assms(2)] obtain tri' :: triangle and ctx'
    where st: "sc_memory_store ctx ''is_right_triangle''
               (Ptr (Obj_int (if right_angle_found (angles tri') then 1 else 0))) ''int'' = Inr ctx'"
      and c: "ctx1 = ctx'\<lparr>entries := end_lifetime (entries ctx') ''is_right_triangle''\<rparr>"
    by blast
  have k: "''input_triangle'' \<noteq> ''is_right_triangle''"
    by simp
  have "sc_memory_get ctx' ''input_triangle'' ''triangle''
      = sc_memory_get ctx ''input_triangle'' ''triangle''"
    using st k by (rule sc_memory_store_other_key)
  moreover have "sc_memory_get ctx1 ''input_triangle'' ''triangle''
      = sc_memory_get ctx' ''input_triangle'' ''triangle''"
    unfolding c sc_memory_get_def using get_loop_end_lifetime_other[OF k] by simp
  ultimately show ?thesis
    using assms(1) by simp
qed

lemma check_right_angle_agent_execute_dangles:
  assumes "check_right_angle_agent_execute ctx = Inr (r, ctx1)"
  shows "sc_memory_get ctx1 ''is_right_triangle'' ''int'' = Inr Dangling"
proof -
  from check_right_angle_agent_execute_InrD[OF assms] obtain tri :: triangle and ctx'
    where st: "sc_memory_store ctx ''is_right_triangle''
               (Ptr (Obj_int (if right_angle_found (angles tri) then 1 else 0))) ''int'' = Inr ctx'"
      and c: "ctx1 = ctx'\<lparr>entries := end_lifetime (entries ctx') ''is_right_triangle''\<rparr>"
    by blast
  have "get_loop (entries ctx') ''is_right_triangle'' ''int''
      = Inr (Ptr (Obj_int (if right_angle_found (angles tri) then 1 else 0)))"
    using sc_memory_get_after_store[OF st] by (simp only: sc_memory_get_def)
  then have "get_loop (end_lifetime (entries ctx') ''is_right_triangle'') ''is_right_triangle'' ''int''
      = Inr Dangling"
    by (rule get_loop_end_lifetime)
  then show ?thesis
    by (simp add: c sc_memory_get_def)
qed

lemma check_right_angle_agent_execute_again:
  assumes "check_right_angle_agent_execute ctx = Inr (r, ctx1)"
  shows "r = SC_RESULT_OK \<and> check_right_angle_agent_execute ctx1 = Inr (SC_RESULT_OK, ctx1)"
proof -
  from check_right_angle_agent_execute_InrD[OF assms] obtain tri ctx'
    where g: "sc_memory_get ctx ''input_triangle'' ''triangle'' = Inr (Ptr (Obj_triangle tri))"
      and st: "sc_memory_store ctx ''is_right_triangle''
               (Ptr (Obj_int (if right_angle_found (angles tri) then 1 else 0))) ''int'' = Inr ctx'"
      and r: "r = SC_RESULT_OK"
      and c: "ctx1 = ctx'\<lparr>entries := end_lifetime (entries ctx') ''is_right_triangle''\<rparr>"
    by blast
  define d where "d = Ptr (Obj_int (if right_angle_found (angles tri) then 1 else 0))"
  have g1: "sc_memory_get ctx1 ''input_triangle'' ''triangle'' = Inr (Ptr (Obj_triangle tri))"
    using g assms by (rule check_right_angle_agent_execute_keeps_triangle)
  have "update_existing (entries ctx') ''is_right_triangle'' d ''int'' = Some (entries ctx')"
    using st unfolding d_def by (rule sc_memory_store_fixpoint)
  then have "update_existing (end_lifetime (entries ctx') ''is_right_triangle'')
      ''is_right_triangle'' d ''int'' = Some (entries ctx')"
    by (rule update_existing_end_lifetime)
  then have "sc_memory_store ctx1 ''is_right_triangle'' d ''int'' = Inr ctx'"
    by (simp add: sc_memory_store_def c)
  then have "check_right_angle_agent_execute ctx1 =
       Inr (SC_RESULT_OK, ctx'\<lparr>entries := end_lifetime (entries ctx') ''is_right_triangle''\<rparr>)"
    unfolding d_def by (rule check_right_angle_agent_execute_run(2)[OF g1])
  with r c show ?thesis
    by simp
qed

lemma CheckRightAngleAgent_body_run:
  "types ctx ''input_triangle'' = Some (Name_of T_Triangle) \<Longrightarrow>
   data_cpp ctx ''input_triangle'' = Some (Ptr (Obj_triangle tri)) \<Longrightarrow>
   types ctx ''rules_set'' = Some (Name_of T_rules) \<Longrightarrow>
   data_cpp ctx ''rules_set'' = Some rules \<Longrightarrow>
     CheckRightAngleAgent_body ctx =
       (Inr SC_RESULT_OK,
        store T_bool ''is_right_triangle'' (Ptr (Obj_bool (right_angle_found (angles tri)))) ctx)"
  by (simp add: CheckRightAngleAgent_body_def get_present)

lemma CheckRightAngleAgent_execute_run:
  assumes "types ctx ''input_triangle'' = Some (Name_of T_Triangle)"
    "data_cpp ctx ''input_triangle'' = Some (Ptr (Obj_triangle tri))"
    "types ctx ''rules_set'' = Some (Name_of T_rules)"
    "data_cpp ctx ''rules_set'' = Some rules"
  shows "CheckRightAngleAgent_execute ctx =
       (Inr SC_RESULT_OK, store T_bool ''is_right_triangle'' Dangling ctx)"
  by (simp add: CheckRightAngleAgent_execute_def CheckRightAngleAgent_body_run[OF assms] store_def)

lemma CheckRightAngleAgent_body_keeps_triangle:
  assumes "data_cpp ctx ''input_triangle'' = Some (Ptr (Obj_triangle tri))"
  shows "data_cpp (snd (CheckRightAngleAgent_body ctx)) ''input_triangle''
             = Some (Ptr (Obj_triangle tri))"
proof -
  obtain r1 c1 where g1: "get T_Triangle ''input_triangle'' ctx = (r1, c1)"
    by (cases "get T_Triangle ''input_triangle'' ctx")
  obtain r2 c2 where g2: "get T_rules ''rules_set'' c1 = (r2, c2)"
    by (cases "get T_rules ''rules_set'' c1")
  have d1: "data_cpp c1 ''input_triangle'' = Some (Ptr (Obj_triangle tri))"
    using get_keeps_data[OF assms, of T_Triangle "''input_triangle''"] g1 by simp
  have d2: "data_cpp c2 ''input_triangle'' = Some (Ptr (Obj_triangle tri))"
    using get_keeps_data[OF d1, of T_rules "''rules_set''"] g2 by simp
  have p: "r1 = Inr q \<Longrightarrow> q = Ptr (Obj_triangle tri)" for q
    using get_returns_data[OF assms, of T_Triangle q] g1 by simp
  show ?thesis
  proof (cases r1)
    case (Inl f)
    then show ?thesis
      using d1 by (simp add: CheckRightAngleAgent_body_def g1)
  next
    case (Inr q)
    with p have q: "q = Ptr (Obj_triangle tri)" by simp
    show ?thesis
    proof (cases r2)
      case (Inl f)
      then show ?thesis
        using d2 Inr by (simp add: CheckRightAngleAgent_body_def g1 g2)
    next
      case (Inr rules)
      then show ?thesis
        using \<open>r1 = Inr q\<close> q d2 by (simp add: CheckRightAngleAgent_body_def g1 g2 store_def)
    qed
  qed
qed

lemma CheckRightAngleAgent_execute_keeps_triangle:
  assumes "data_cpp ctx ''input_triangle'' = Some (Ptr (Obj_triangle tri))"
  shows "data_cpp (snd (CheckRightAngleAgent_execute ctx)) ''input_triangle''
             = Some (Ptr (Obj_triangle tri))"
proof -
  obtain r c where b: "CheckRightAngleAgent_body ctx = (r, c)"
    by (cases "CheckRightAngleAgent_body ctx")
  have "data_cpp c ''input_triangle'' = Some (Ptr (Obj_triangle tri))"
    using CheckRightAngleAgent_body_keeps_triangle[OF assms] b by simp
  then show ?thesis
    by (cases r) (simp_all add: CheckRightAngleAgent_execute_def b)
qed

subsection \<open>The pipeline after a successful classification\<close>

lemma triangle_processing_agent_execute_reads_dead_local:
  assumes "calculate_angles_agent_execute ctx = Inr (SC_RESULT_OK, ctx1)"
    and "check_right_angle_agent_execute ctx1 = Inr (SC_RESULT_OK, ctx2)"
  shows "triangle_processing_agent_execute ctx = Inl DanglingDereference"
  using assms check_right_angle_agent_execute_dangles[OF assms(2)]
  by (simp add: triangle_processing_agent_execute_def)

lemma TriangleProcessingAgent_execute_reads_dead_local:
  assumes "CalculateAnglesAgent_execute ctx = (Inr SC_RESULT_OK, ctx1)"
    and "types ctx1 ''input_triangle'' = Some (Name_of T_Triangle)"
    "data_cpp ctx1 ''input_triangle'' = Some (Ptr (Obj_triangle tri))"
    "types ctx1 ''rules_set'' = Some (Name_of T_rules)"
    "data_cpp ctx1 ''rules_set'' = Some rules"
  shows "TriangleProcessingAgent_execute ctx =
     (Inl DanglingDereference, store T_bool ''is_right_triangle'' Dangling ctx1)"
proof -
  have chk: "CheckRightAngleAgent_execute ctx1 =
       (Inr SC_RESULT_OK, store T_bool ''is_right_triangle'' Dangling ctx1)"
    using assms(2-5) by (rule CheckRightAngleAgent_execute_run)
  have "get T_bool ''is_right_triangle'' (store T_bool ''is_right_triangle'' Dangling ctx1)
      = (Inr Dangling, store T_bool ''is_right_triangle'' Dangling ctx1)"
    by (rule get_after_store)
  then show ?thesis
    by (simp add: TriangleProcessingAgent_execute_def assms(1) chk)
qed

subsection \<open>Completed triangles\<close>

lemma store_again: "store T a v (store T a v ctx) = store T a v ctx"
  by (simp add: store_def)

lemma completed_values_sum:
  assumes "length as = 3" "i < 3" "\<not> is_known (as ! i)"
    and "\<forall>j<3. j \<noteq> i \<longrightarrow> is_known (as ! j)"
    and "\<forall>j<3. j \<noteq> i \<longrightarrow> (\<exists>x. value (as ! j) = Finite x \<and> 0 \<le> x \<and> x \<le> 180)"
  shows "\<exists>xs. map value
           (as[i := \<lparr>value = double_sub (Finite 180)
                         (foldl double_add (Finite 0) (map value (filter is_known as))),
                    is_known = True\<rparr>]) = map Finite xs
         \<and> \<bar>sum_list xs - 180\<bar> \<le> 1 / 2 ^ 43"
proof -
  from assms(1) obtain a0 a1 a2 where as: "as = [a0, a1, a2]"
    by (auto simp: length_Suc_conv numeral_3_eq_3)
  from assms(2) have "i = 0 \<or> i = 1 \<or> i = 2"
    by auto
  then show ?thesis
  proof (elim disjE)
    assume i: "i = 0"
    from assms(4) i as have k: "is_known a1" "is_known a2"
      using assms(4)[rule_format, of 1] assms(4)[rule_format, of 2] by simp_all
    from assms(5)[rule_format, of 1] assms(5)[rule_format, of 2] i as
    obtain x y where v: "value a1 = Finite x" "0 \<le> x" "x \<le> 180"
        "value a2 = Finite y" "0 \<le> y" "y \<le> 180"
      by auto
    from completion_sum[OF v(2,3,5,6)] obtain t
      where t: "double_sub (Finite 180) (double_add (double_add (Finite 0) (Finite x)) (Finite y))
                  = Finite t" "\<bar>x + y + t - 180\<bar> \<le> 1 / 2 ^ 43"
      by blast
    have "map value
           (as[i := \<lparr>value = double_sub (Finite 180)
                         (foldl double_add (Finite 0) (map value (filter is_known as))),
                    is_known = True\<rparr>]) = map Finite [t, x, y]"
      using i as k v(1,4) t(1) assms(3) by simp
    moreover have "\<bar>sum_list [t, x, y] - 180\<bar> \<le> 1 / 2 ^ 43"
      using t(2) by (simp add: algebra_simps)
    ultimately show ?thesis
      by blast
  next
    assume i: "i = 1"
    from assms(4) i as have k: "is_known a0" "is_known a2"
      using assms(4)[rule_format, of 0] assms(4)[rule_format, of 2] by simp_all
    from assms(5)[rule_format, of 0] assms(5)[rule_format, of 2] i as
    obtain x y where v: "value a0 = Finite x" "0 \<le> x" "x \<le> 180"
        "value a2 = Finite y" "0 \<le> y" "y \<le> 180"
      by auto
    from completion_sum[OF v(2,3,5,6)] obtain t
      where t: "double_sub (Finite 180) (double_add (double_add (Finite 0) (Finite x)) (Finite y))
                  = Finite t" "\<bar>x + y + t - 180\<bar> \<le> 1 / 2 ^ 43"
      by blast
    have "map value
           (as[i := \<lparr>value = double_sub (Finite 180)
                         (foldl double_add (Finite 0) (map value (filter is_known as))),
                    is_known = True\<rparr>]) = map Finite [x, t, y]"
      using i as k v(1,4) t(1) assms(3) by simp
    moreover have "\<bar>sum_list [x, t, y] - 180\<bar> \<le> 1 / 2 ^ 43"
      using t(2) by (simp add: algebra_simps)
    ultimately show ?thesis
      by blast
  next
    assume i: "i = 2"
    from assms(4) i as have k: "is_known a0" "is_known a1"
      using assms(4)[rule_format, of 0] assms(4)[rule_format, of 1] by simp_all
    from assms(5)[rule_format, of 0] assms(5)[rule_format, of 1] i as
    obtain x y where v: "value a0 = Finite x" "0 \<le> x" "x \<le> 180"
        "value a1 = Finite y" "0 \<le> y" "y \<le> 180"
      by auto
    from completion_sum[OF v(2,3,5,6)] obtain t
      where t: "double_sub (Finite 180) (double_add (double_add (Finite 0) (Finite x)) (Finite y))
                  = Finite t" "\<bar>x + y + t - 180\<bar> \<le> 1 / 2 ^ 43"
      by blast
    have "map value
           (as[i := \<lparr>value = double_sub (Finite 180)
                         (foldl double_add (Finite 0) (map value (filter is_known as))),
                    is_known = True\<rparr>]) = map Finite [x, y, t]"
      using i as k v(1,4) t(1) assms(3) by simp
    moreover have "\<bar>sum_list [x, y, t] - 180\<bar> \<le> 1 / 2 ^ 43"
      using t(2) by (simp add: algebra_simps)
    ultimately show ?thesis
      by blast
  qed
qed


lemma calculate_angles_scenario_C:
  "calculate_angles \<lparr>angles = [\<lparr>value = Finite 90, is_known = True\<rparr>,
                                \<lparr>value = Finite 90, is_known = True\<rparr>,
                                \<lparr>value = stale, is_known = False\<rparr>]\<rparr>
     = (SC_RESULT_OK, \<lparr>angles = [\<lparr>value = Finite 90, is_known = True\<rparr>,
                                  \<lparr>value = Finite 90, is_known = True\<rparr>,
                                  \<lparr>value = Finite 0, is_known = True\<rparr>]\<rparr>)"
  by (simp add: calculate_angles_def double_sub_def dbl_round_exact dbl_round_zero)

section \<open>Claims\<close>

text \<open>
  C1 (amended). Let a triangle with exactly one unknown angle, at index \<open>i\<close>, be stored
  under \<^verbatim>\<open>input_triangle\<close> (and, for the C++ agent, a rule set under \<^verbatim>\<open>rules_set\<close>). Then
  the angle agent returns success, the stored triangle has angle \<open>i\<close> set to the binary64
  difference of 180 and the binary64 sum of the known values and marked known, and every
  angle of the result is known. When the two known values are finite and between 0 and
  180, the three values are finite and their sum is within \<open>2 ^ -43\<close> of 180.
\<close>

theorem angle_completion_fills_single_gap:
  assumes "length (angles tri) = 3" "i < 3" "\<not> is_known (angles tri ! i)"
    and "\<forall>j<3. j \<noteq> i \<longrightarrow> is_known (angles tri ! j)"
  shows
    "let tri' = tri\<lparr>angles := (angles tri)
                 [i := \<lparr>value = double_sub (Finite 180)
                           (foldl double_add (Finite 0)
                              (map value (filter is_known (angles tri)))),
                        is_known = True\<rparr>]\<rparr>
     in (sc_memory_get ctx ''input_triangle'' ''triangle'' = Inr (Ptr (Obj_triangle tri)) \<longrightarrow>
           (\<exists>ctx'. calculate_angles_agent_execute ctx = Inr (SC_RESULT_OK, ctx')
              \<and> sc_memory_get ctx' ''input_triangle'' ''triangle'' = Inr (Ptr (Obj_triangle tri'))))
      \<and> (types cctx ''input_triangle'' = Some (Name_of T_Triangle)
           \<and> data_cpp cctx ''input_triangle'' = Some (Ptr (Obj_triangle tri))
           \<and> types cctx ''rules_set'' = Some (Name_of T_rules)
           \<and> data_cpp cctx ''rules_set'' = Some rules \<longrightarrow>
           fst (CalculateAnglesAgent_execute cctx) = Inr SC_RESULT_OK
           \<and> data_cpp (snd (CalculateAnglesAgent_execute cctx)) ''input_triangle''
               = Some (Ptr (Obj_triangle tri')))
      \<and> (\<forall>a \<in> set (angles tri'). is_known a)
      \<and> ((\<forall>j<3. j \<noteq> i \<longrightarrow>
             (\<exists>x. value (angles tri ! j) = Finite x \<and> 0 \<le> x \<and> x \<le> 180)) \<longrightarrow>
           (\<exists>xs. map value (angles tri') = map Finite xs \<and> \<bar>sum_list xs - 180\<bar> \<le> 1 / 2 ^ 43))"
proof -
  define v where "v = double_sub (Finite 180)
      (foldl double_add (Finite 0) (map value (filter is_known (angles tri))))"
  define bs where "bs = (angles tri)[i := \<lparr>value = v, is_known = True\<rparr>]"
  define tri' where "tri' = tri\<lparr>angles := bs\<rparr>"
  have i: "i < length (angles tri)"
    and others: "\<forall>j<length (angles tri). j \<noteq> i \<longrightarrow> is_known (angles tri ! j)"
    using assms by simp_all
  have calc: "calculate_angles tri = (SC_RESULT_OK, tri')"
    unfolding tri'_def bs_def v_def using i assms(3) others by (rule calculate_angles_one_unknown)
  have all_known: "\<forall>a \<in> set bs. is_known a"
    unfolding bs_def using i others by (rule all_known_update)
  have total: "\<exists>xs. map value bs = map Finite xs \<and> \<bar>sum_list xs - 180\<bar> \<le> 1 / 2 ^ 43"
    if "\<forall>j<3. j \<noteq> i \<longrightarrow> (\<exists>x. value (angles tri ! j) = Finite x \<and> 0 \<le> x \<and> x \<le> 180)"
    unfolding bs_def v_def using assms that by (rule completed_values_sum)
  have angles': "angles tri' = bs"
    by (simp add: tri'_def)
  have "(sc_memory_get ctx ''input_triangle'' ''triangle'' = Inr (Ptr (Obj_triangle tri)) \<longrightarrow>
           (\<exists>ctx'. calculate_angles_agent_execute ctx = Inr (SC_RESULT_OK, ctx')
              \<and> sc_memory_get ctx' ''input_triangle'' ''triangle'' = Inr (Ptr (Obj_triangle tri'))))
      \<and> (types cctx ''input_triangle'' = Some (Name_of T_Triangle)
           \<and> data_cpp cctx ''input_triangle'' = Some (Ptr (Obj_triangle tri))
           \<and> types cctx ''rules_set'' = Some (Name_of T_rules)
           \<and> data_cpp cctx ''rules_set'' = Some rules \<longrightarrow>
           fst (CalculateAnglesAgent_execute cctx) = Inr SC_RESULT_OK
           \<and> data_cpp (snd (CalculateAnglesAgent_execute cctx)) ''input_triangle''
               = Some (Ptr (Obj_triangle tri')))
      \<and> (\<forall>a \<in> set (angles tri'). is_known a)
      \<and> ((\<forall>j<3. j \<noteq> i \<longrightarrow>
             (\<exists>x. value (angles tri ! j) = Finite x \<and> 0 \<le> x \<and> x \<le> 180)) \<longrightarrow>
           (\<exists>xs. map value (angles tri') = map Finite xs \<and> \<bar>sum_list xs - 180\<bar> \<le> 1 / 2 ^ 43))"
    using calculate_angles_agent_execute_result[OF _ calc, of ctx]
      CalculateAnglesAgent_execute_result[OF _ _ _ _ calc, of cctx rules]
      all_known total angles'
    by blast
  then show ?thesis
    unfolding Let_def tri'_def bs_def v_def .
qed

theorem angle_completion_fills_single_gap_witness:
  "length (angles triangle1) = 3 \<and> (2::nat) < 3 \<and> \<not> is_known (angles triangle1 ! 2)
   \<and> is_known (angles triangle1 ! 0) \<and> is_known (angles triangle1 ! 1)
   \<and> value (angles triangle1 ! 0) = Finite 90 \<and> value (angles triangle1 ! 1) = Finite 45
   \<and> (\<exists>ctx ctx'. main_populate triangle1 = Inr ctx
        \<and> sc_memory_get ctx ''input_triangle'' ''triangle'' = Inr (Ptr (Obj_triangle triangle1))
        \<and> calculate_angles_agent_execute ctx = Inr (SC_RESULT_OK, ctx')
        \<and> sc_memory_get ctx' ''input_triangle'' ''triangle''
            = Inr (Ptr (Obj_triangle \<lparr>angles = [\<lparr>value = Finite 90, is_known = True\<rparr>,
                 \<lparr>value = Finite 45, is_known = True\<rparr>, \<lparr>value = Finite 45, is_known = True\<rparr>]\<rparr>)))
   \<and> fst (CalculateAnglesAgent_execute (main_populate_cpp triangle1)) = Inr SC_RESULT_OK
   \<and> data_cpp (snd (CalculateAnglesAgent_execute (main_populate_cpp triangle1))) ''input_triangle''
        = Some (Ptr (Obj_triangle \<lparr>angles = [\<lparr>value = Finite 90, is_known = True\<rparr>,
                 \<lparr>value = Finite 45, is_known = True\<rparr>, \<lparr>value = Finite 45, is_known = True\<rparr>]\<rparr>))
   \<and> (\<exists>xs. map value [\<lparr>value = Finite 90, is_known = True\<rparr>,
                 \<lparr>value = Finite 45, is_known = True\<rparr>, \<lparr>value = Finite 45, is_known = True\<rparr>]
              = map Finite xs \<and> \<bar>sum_list xs - 180\<bar> \<le> 1 / 2 ^ 43)"
proof -
  let ?ctx = "\<lparr>entries = [\<lparr>addr = ''input_triangle'', data = Ptr (Obj_triangle triangle1), type = ''triangle''\<rparr>,
                     \<lparr>addr = ''rules_set'', data = Ptr (Obj_int 0), type = ''rules_set''\<rparr>],
          capacity = 10\<rparr>"
  have h1: "length (angles triangle1) = 3" and h2: "(2::nat) < 3"
    and h3: "\<not> is_known (angles triangle1 ! 2)"
    by (simp_all add: triangle1_def)
  have h4: "\<forall>j<3. j \<noteq> 2 \<longrightarrow> is_known (angles triangle1 ! j)"
    by (simp add: triangle1_def numeral_3_eq_3 less_Suc_eq)
  have h5: "is_known (angles triangle1 ! 0)" "is_known (angles triangle1 ! 1)"
    "value (angles triangle1 ! 0) = Finite 90" "value (angles triangle1 ! 1) = Finite 45"
    by (simp_all add: triangle1_def)
  have h6: "\<forall>j<3. j \<noteq> 2 \<longrightarrow>
      (\<exists>x. value (angles triangle1 ! j) = Finite x \<and> 0 \<le> x \<and> x \<le> 180)"
    by (simp add: triangle1_def numeral_3_eq_3 less_Suc_eq)
  have g: "sc_memory_get ?ctx ''input_triangle'' ''triangle'' = Inr (Ptr (Obj_triangle triangle1))"
    by (simp add: sc_memory_get_def)
  have v: "tri\<lparr>angles := (angles triangle1)
                 [2 := \<lparr>value = double_sub (Finite 180)
                           (foldl double_add (Finite 0)
                              (map value (filter is_known (angles triangle1)))),
                        is_known = True\<rparr>]\<rparr>
        = \<lparr>angles = [\<lparr>value = Finite 90, is_known = True\<rparr>,
                 \<lparr>value = Finite 45, is_known = True\<rparr>, \<lparr>value = Finite 45, is_known = True\<rparr>]\<rparr>"
    for tri :: triangle
    by (simp add: triangle1_def double_sub_def dbl_round_exact)
  show ?thesis
    using angle_completion_fills_single_gap [OF h1 h2 h3 h4, of ?ctx "main_populate_cpp triangle1"
        "Ptr (Obj_rules [(''right_angle_threshold'', ''90.0'')])"]
      h1 h3 h5 h6 g main_populate_eq[of triangle1] main_populate_cpp_holds[of triangle1]
    unfolding Let_def v by simp
qed

text \<open>
  C1 as stated fails twice. On the C++ agent: with the triangle of the first test stored
  and no \<^verbatim>\<open>rules_set\<close>, \<^verbatim>\<open>get<Triangle>\<close> succeeds and the agent leaves by the exception
  of its second \<^verbatim>\<open>get\<close>. On the arithmetic: for the known angles \<open>10 ^ 17\<close> and 0 the
  difference \<open>180 - 10 ^ 17\<close> is rounded to a multiple of 16, and the three stored values
  sum to 176.
\<close>

theorem angle_completion_counterexample:
  "fst (get T_Triangle ''input_triangle''
          (store T_Triangle ''input_triangle'' (Ptr (Obj_triangle triangle1))
             \<lparr>data_cpp = Map.empty, types = Map.empty\<rparr>))
     = Inr (Ptr (Obj_triangle triangle1))
   \<and> fst (CalculateAnglesAgent_execute
            (store T_Triangle ''input_triangle'' (Ptr (Obj_triangle triangle1))
               \<lparr>data_cpp = Map.empty, types = Map.empty\<rparr>))
     = Inl TypeMismatch
   \<and> (\<exists>ctx ctx'.
        main_populate \<lparr>angles = [\<lparr>value = Finite 100000000000000000, is_known = True\<rparr>,
                 \<lparr>value = Finite 0, is_known = True\<rparr>, \<lparr>value = Finite 0, is_known = False\<rparr>]\<rparr>
          = Inr ctx
        \<and> calculate_angles_agent_execute ctx = Inr (SC_RESULT_OK, ctx')
        \<and> sc_memory_get ctx' ''input_triangle'' ''triangle''
            = Inr (Ptr (Obj_triangle
                \<lparr>angles = [\<lparr>value = Finite 100000000000000000, is_known = True\<rparr>,
                            \<lparr>value = Finite 0, is_known = True\<rparr>,
                            \<lparr>value = Finite (- 99999999999999824), is_known = True\<rparr>]\<rparr>)))
   \<and> sum_list [100000000000000000, 0, - 99999999999999824] = (176::real)"
proof -
  define tri where "tri = \<lparr>angles = [\<lparr>value = Finite 100000000000000000, is_known = True\<rparr>,
      \<lparr>value = Finite 0, is_known = True\<rparr>, \<lparr>value = Finite 0, is_known = False\<rparr>]\<rparr>"
  define tri' where "tri' = \<lparr>angles = [\<lparr>value = Finite 100000000000000000, is_known = True\<rparr>,
      \<lparr>value = Finite 0, is_known = True\<rparr>,
      \<lparr>value = Finite (- 99999999999999824), is_known = True\<rparr>]\<rparr>"
  define ctx where "ctx =
     \<lparr>entries = [\<lparr>addr = ''input_triangle'', data = Ptr (Obj_triangle tri), type = ''triangle''\<rparr>,
                     \<lparr>addr = ''rules_set'', data = Ptr (Obj_int 0), type = ''rules_set''\<rparr>],
          capacity = 10\<rparr>"
  have calc: "calculate_angles tri = (SC_RESULT_OK, tri')"
    by (simp add: calculate_angles_def tri_def tri'_def double_sub_def
        dbl_round_1e17 dbl_round_180_minus_1e17)
  have pop: "main_populate tri = Inr ctx"
    by (simp only: main_populate_eq ctx_def)
  have g: "sc_memory_get ctx ''input_triangle'' ''triangle'' = Inr (Ptr (Obj_triangle tri))"
    by (simp add: sc_memory_get_def ctx_def)
  have c_part: "\<exists>ctx ctx'. main_populate tri = Inr ctx
        \<and> calculate_angles_agent_execute ctx = Inr (SC_RESULT_OK, ctx')
        \<and> sc_memory_get ctx' ''input_triangle'' ''triangle'' = Inr (Ptr (Obj_triangle tri'))"
    using pop calculate_angles_agent_execute_result[OF g calc] by blast
  have cpp_part: "fst (get T_Triangle ''input_triangle''
          (store T_Triangle ''input_triangle'' (Ptr (Obj_triangle triangle1))
             \<lparr>data_cpp = Map.empty, types = Map.empty\<rparr>))
     = Inr (Ptr (Obj_triangle triangle1))
   \<and> fst (CalculateAnglesAgent_execute
            (store T_Triangle ''input_triangle'' (Ptr (Obj_triangle triangle1))
               \<lparr>data_cpp = Map.empty, types = Map.empty\<rparr>))
     = Inl TypeMismatch"
    by (simp add: CalculateAnglesAgent_execute_def get_def store_def Let_def)
  have "sum_list [100000000000000000, 0, - 99999999999999824] = (176::real)"
    by simp
  with c_part cpp_part show ?thesis
    unfolding tri_def tri'_def by blast
qed




text \<open>
  C5 (amended). With a triangle that has no unknown angle, or two or more, stored under
  \<^verbatim>\<open>input_triangle\<close> (for the C++ agent with a rule set stored under \<^verbatim>\<open>rules_set\<close>), the
  angle agent returns failure and the store it leaves is the store it was given: no angle
  and no key is written.
\<close>

theorem angle_completion_rejects_other_counts:
  assumes "length (filter (\<lambda>a. \<not> is_known a) (angles tri)) = 0
           \<or> 2 \<le> length (filter (\<lambda>a. \<not> is_known a) (angles tri))"
  shows "(sc_memory_get ctx ''input_triangle'' ''triangle'' = Inr (Ptr (Obj_triangle tri)) \<longrightarrow>
            calculate_angles_agent_execute ctx = Inr (SC_RESULT_ERROR, ctx))
       \<and> (types cctx ''input_triangle'' = Some (Name_of T_Triangle)
           \<and> data_cpp cctx ''input_triangle'' = Some (Ptr (Obj_triangle tri))
           \<and> types cctx ''rules_set'' = Some (Name_of T_rules)
           \<and> data_cpp cctx ''rules_set'' = Some rules \<longrightarrow>
            CalculateAnglesAgent_execute cctx = (Inr SC_RESULT_ERROR, cctx))"
proof -
  from assms have "length (filter (\<lambda>a. \<not> is_known a) (angles tri)) \<noteq> 1"
    by auto
  then have calc: "calculate_angles tri = (SC_RESULT_ERROR, tri)"
    by (rule calculate_angles_not_one)
  show ?thesis
    using calculate_angles_agent_execute_error[OF _ calc, of ctx]
      CalculateAnglesAgent_execute_error[OF _ _ _ _ calc, of cctx rules]
    by blast
qed

theorem angle_completion_rejects_other_counts_witness:
  "length (filter (\<lambda>a. \<not> is_known a)
      (angles \<lparr>angles = [\<lparr>value = Finite 60, is_known = True\<rparr>, \<lparr>value = Finite 60, is_known = True\<rparr>,
                          \<lparr>value = Finite 60, is_known = True\<rparr>]\<rparr>)) = 0
   \<and> (\<exists>ctx. main_populate \<lparr>angles = [\<lparr>value = Finite 60, is_known = True\<rparr>,
                 \<lparr>value = Finite 60, is_known = True\<rparr>, \<lparr>value = Finite 60, is_known = True\<rparr>]\<rparr> = Inr ctx
        \<and> sc_memory_get ctx ''input_triangle'' ''triangle''
            = Inr (Ptr (Obj_triangle \<lparr>angles = [\<lparr>value = Finite 60, is_known = True\<rparr>,
                 \<lparr>value = Finite 60, is_known = True\<rparr>, \<lparr>value = Finite 60, is_known = True\<rparr>]\<rparr>))
        \<and> calculate_angles_agent_execute ctx = Inr (SC_RESULT_ERROR, ctx))
   \<and> CalculateAnglesAgent_execute
        (main_populate_cpp \<lparr>angles = [\<lparr>value = Finite 60, is_known = True\<rparr>,
                 \<lparr>value = Finite 60, is_known = True\<rparr>, \<lparr>value = Finite 60, is_known = True\<rparr>]\<rparr>)
      = (Inr SC_RESULT_ERROR,
         main_populate_cpp \<lparr>angles = [\<lparr>value = Finite 60, is_known = True\<rparr>,
                 \<lparr>value = Finite 60, is_known = True\<rparr>, \<lparr>value = Finite 60, is_known = True\<rparr>]\<rparr>)"
proof -
  define tri where "tri = \<lparr>angles = [\<lparr>value = Finite 60, is_known = True\<rparr>,
                 \<lparr>value = Finite 60, is_known = True\<rparr>, \<lparr>value = Finite 60, is_known = True\<rparr>]\<rparr>"
  define ctx where "ctx =
     \<lparr>entries = [\<lparr>addr = ''input_triangle'', data = Ptr (Obj_triangle tri), type = ''triangle''\<rparr>,
                     \<lparr>addr = ''rules_set'', data = Ptr (Obj_int 0), type = ''rules_set''\<rparr>],
          capacity = 10\<rparr>"
  have count: "length (filter (\<lambda>a. \<not> is_known a) (angles tri)) = 0"
    by (simp add: tri_def)
  then have h: "length (filter (\<lambda>a. \<not> is_known a) (angles tri)) = 0
           \<or> 2 \<le> length (filter (\<lambda>a. \<not> is_known a) (angles tri))"
    by (rule disjI1)
  have pop: "main_populate tri = Inr ctx"
    by (simp only: main_populate_eq ctx_def)
  have g: "sc_memory_get ctx ''input_triangle'' ''triangle'' = Inr (Ptr (Obj_triangle tri))"
    by (simp add: sc_memory_get_def ctx_def)
  have "length (filter (\<lambda>a. \<not> is_known a) (angles tri)) = 0
   \<and> (\<exists>ctx. main_populate tri = Inr ctx
        \<and> sc_memory_get ctx ''input_triangle'' ''triangle'' = Inr (Ptr (Obj_triangle tri))
        \<and> calculate_angles_agent_execute ctx = Inr (SC_RESULT_ERROR, ctx))
   \<and> CalculateAnglesAgent_execute (main_populate_cpp tri)
      = (Inr SC_RESULT_ERROR, main_populate_cpp tri)"
    using angle_completion_rejects_other_counts [OF h, of ctx "main_populate_cpp tri"
        "Ptr (Obj_rules [(''right_angle_threshold'', ''90.0'')])"]
      count pop g main_populate_cpp_holds[of tri]
    by blast
  then show ?thesis
    unfolding tri_def .
qed

text \<open>
  C5 as stated fails on the C++ agent: with a fully known triangle stored and no
  \<^verbatim>\<open>rules_set\<close>, the agent does not return failure but leaves by an exception, and the
  failed \<^verbatim>\<open>get\<close> has written the key \<^verbatim>\<open>rules_set\<close> into the map \<^verbatim>\<open>types\<close>.
\<close>

theorem angle_completion_failure_without_rules_set_counterexample:
  "length (filter (\<lambda>a. \<not> is_known a)
      (angles \<lparr>angles = [\<lparr>value = Finite 60, is_known = True\<rparr>, \<lparr>value = Finite 60, is_known = True\<rparr>,
                          \<lparr>value = Finite 60, is_known = True\<rparr>]\<rparr>)) = 0
   \<and> fst (get T_Triangle ''input_triangle''
          (store T_Triangle ''input_triangle''
             (Ptr (Obj_triangle \<lparr>angles = [\<lparr>value = Finite 60, is_known = True\<rparr>,
                 \<lparr>value = Finite 60, is_known = True\<rparr>, \<lparr>value = Finite 60, is_known = True\<rparr>]\<rparr>))
             \<lparr>data_cpp = Map.empty, types = Map.empty\<rparr>))
     = Inr (Ptr (Obj_triangle \<lparr>angles = [\<lparr>value = Finite 60, is_known = True\<rparr>,
                 \<lparr>value = Finite 60, is_known = True\<rparr>, \<lparr>value = Finite 60, is_known = True\<rparr>]\<rparr>))
   \<and> fst (CalculateAnglesAgent_execute
          (store T_Triangle ''input_triangle''
             (Ptr (Obj_triangle \<lparr>angles = [\<lparr>value = Finite 60, is_known = True\<rparr>,
                 \<lparr>value = Finite 60, is_known = True\<rparr>, \<lparr>value = Finite 60, is_known = True\<rparr>]\<rparr>))
             \<lparr>data_cpp = Map.empty, types = Map.empty\<rparr>))
     = Inl TypeMismatch
   \<and> types (store T_Triangle ''input_triangle''
             (Ptr (Obj_triangle \<lparr>angles = [\<lparr>value = Finite 60, is_known = True\<rparr>,
                 \<lparr>value = Finite 60, is_known = True\<rparr>, \<lparr>value = Finite 60, is_known = True\<rparr>]\<rparr>))
             \<lparr>data_cpp = Map.empty, types = Map.empty\<rparr>) ''rules_set'' = None
   \<and> types (snd (CalculateAnglesAgent_execute
          (store T_Triangle ''input_triangle''
             (Ptr (Obj_triangle \<lparr>angles = [\<lparr>value = Finite 60, is_known = True\<rparr>,
                 \<lparr>value = Finite 60, is_known = True\<rparr>, \<lparr>value = Finite 60, is_known = True\<rparr>]\<rparr>))
             \<lparr>data_cpp = Map.empty, types = Map.empty\<rparr>))) ''rules_set'' = Some Empty_name"
  by (simp add: CalculateAnglesAgent_execute_def get_def store_def Let_def)

text \<open>
  C6. When the angle agent does not return success, the pipeline stops there: it hands
  the agent's failure to its caller and the store it leaves is the one the angle agent
  left, so the right-angle agent has not run and \<^verbatim>\<open>is_right_triangle\<close> is not written. In C
  a returned error leaves the store as it was given and a fault ends the run; in C++ a
  returned error and an exception both come back as they are.
\<close>

theorem pipeline_stops_when_completion_fails:
  "(calculate_angles_agent_execute ctx = Inr (SC_RESULT_ERROR, ctx1) \<longrightarrow>
      triangle_processing_agent_execute ctx = Inr (SC_RESULT_ERROR, ctx1) \<and> ctx1 = ctx)
   \<and> (calculate_angles_agent_execute ctx = Inl f \<longrightarrow>
      triangle_processing_agent_execute ctx = Inl f)
   \<and> (fst (CalculateAnglesAgent_execute cctx) \<noteq> Inr SC_RESULT_OK \<longrightarrow>
      TriangleProcessingAgent_execute cctx = CalculateAnglesAgent_execute cctx
      \<and> data_cpp (snd (TriangleProcessingAgent_execute cctx)) ''is_right_triangle''
          = data_cpp cctx ''is_right_triangle''
      \<and> types (snd (TriangleProcessingAgent_execute cctx)) ''is_right_triangle''
          = types cctx ''is_right_triangle'')"
proof (intro conjI impI)
  assume h: "calculate_angles_agent_execute ctx = Inr (SC_RESULT_ERROR, ctx1)"
  then show "triangle_processing_agent_execute ctx = Inr (SC_RESULT_ERROR, ctx1)"
    by (simp add: triangle_processing_agent_execute_def)
  from h show "ctx1 = ctx"
    by (rule calculate_angles_agent_execute_error_same)
next
  assume "calculate_angles_agent_execute ctx = Inl f"
  then show "triangle_processing_agent_execute ctx = Inl f"
    by (simp add: triangle_processing_agent_execute_def)
next
  assume h: "fst (CalculateAnglesAgent_execute cctx) \<noteq> Inr SC_RESULT_OK"
  then show stop: "TriangleProcessingAgent_execute cctx = CalculateAnglesAgent_execute cctx"
    by (rule TriangleProcessingAgent_execute_stops)
  have other: "''is_right_triangle'' \<noteq> ''input_triangle''" "''is_right_triangle'' \<noteq> ''rules_set''"
    by simp_all
  show "data_cpp (snd (TriangleProcessingAgent_execute cctx)) ''is_right_triangle''
          = data_cpp cctx ''is_right_triangle''"
    using CalculateAnglesAgent_execute_other_key[OF other, of cctx] stop by simp
  show "types (snd (TriangleProcessingAgent_execute cctx)) ''is_right_triangle''
          = types cctx ''is_right_triangle''"
    using CalculateAnglesAgent_execute_other_key[OF other, of cctx] stop by simp
qed

theorem pipeline_stops_when_completion_fails_witness:
  "(\<exists>ctx. main_populate \<lparr>angles = [\<lparr>value = Finite 60, is_known = True\<rparr>,
                 \<lparr>value = Finite 60, is_known = True\<rparr>, \<lparr>value = Finite 60, is_known = True\<rparr>]\<rparr> = Inr ctx
      \<and> calculate_angles_agent_execute ctx = Inr (SC_RESULT_ERROR, ctx)
      \<and> triangle_processing_agent_execute ctx = Inr (SC_RESULT_ERROR, ctx))
   \<and> calculate_angles_agent_execute (sc_memory_init 10) = Inl NullDereference
   \<and> triangle_processing_agent_execute (sc_memory_init 10) = Inl NullDereference
   \<and> fst (CalculateAnglesAgent_execute
        (main_populate_cpp \<lparr>angles = [\<lparr>value = Finite 60, is_known = True\<rparr>,
                 \<lparr>value = Finite 60, is_known = True\<rparr>, \<lparr>value = Finite 60, is_known = True\<rparr>]\<rparr>))
       = Inr SC_RESULT_ERROR
   \<and> TriangleProcessingAgent_execute
        (main_populate_cpp \<lparr>angles = [\<lparr>value = Finite 60, is_known = True\<rparr>,
                 \<lparr>value = Finite 60, is_known = True\<rparr>, \<lparr>value = Finite 60, is_known = True\<rparr>]\<rparr>)
       = (Inr SC_RESULT_ERROR,
          main_populate_cpp \<lparr>angles = [\<lparr>value = Finite 60, is_known = True\<rparr>,
                 \<lparr>value = Finite 60, is_known = True\<rparr>, \<lparr>value = Finite 60, is_known = True\<rparr>]\<rparr>)
   \<and> data_cpp (snd (TriangleProcessingAgent_execute
        (main_populate_cpp \<lparr>angles = [\<lparr>value = Finite 60, is_known = True\<rparr>,
                 \<lparr>value = Finite 60, is_known = True\<rparr>, \<lparr>value = Finite 60, is_known = True\<rparr>]\<rparr>)))
        ''is_right_triangle'' = None"
proof -
  define tri where "tri = \<lparr>angles = [\<lparr>value = Finite 60, is_known = True\<rparr>,
                 \<lparr>value = Finite 60, is_known = True\<rparr>, \<lparr>value = Finite 60, is_known = True\<rparr>]\<rparr>"
  define ctx where "ctx =
     \<lparr>entries = [\<lparr>addr = ''input_triangle'', data = Ptr (Obj_triangle tri), type = ''triangle''\<rparr>,
                     \<lparr>addr = ''rules_set'', data = Ptr (Obj_int 0), type = ''rules_set''\<rparr>],
          capacity = 10\<rparr>"
  have calc: "calculate_angles tri = (SC_RESULT_ERROR, tri)"
    by (rule calculate_angles_not_one) (simp add: tri_def)
  have pop: "main_populate tri = Inr ctx"
    by (simp only: main_populate_eq ctx_def)
  have g: "sc_memory_get ctx ''input_triangle'' ''triangle'' = Inr (Ptr (Obj_triangle tri))"
    by (simp add: sc_memory_get_def ctx_def)
  have c_err: "calculate_angles_agent_execute ctx = Inr (SC_RESULT_ERROR, ctx)"
    using g calc by (rule calculate_angles_agent_execute_error)
  have c_null: "calculate_angles_agent_execute (sc_memory_init 10) = Inl NullDereference"
    by (simp add: calculate_angles_agent_execute_def sc_memory_get_def sc_memory_init_def)
  have cpp_err: "CalculateAnglesAgent_execute (main_populate_cpp tri)
       = (Inr SC_RESULT_ERROR, main_populate_cpp tri)"
    using main_populate_cpp_holds[of tri] calc by (rule CalculateAnglesAgent_execute_error)
  then have cpp_not_ok: "fst (CalculateAnglesAgent_execute (main_populate_cpp tri)) \<noteq> Inr SC_RESULT_OK"
    by simp
  have none: "data_cpp (main_populate_cpp tri) ''is_right_triangle'' = None"
    by (simp add: main_populate_cpp_def store_def)
  have "(\<exists>ctx. main_populate tri = Inr ctx
      \<and> calculate_angles_agent_execute ctx = Inr (SC_RESULT_ERROR, ctx)
      \<and> triangle_processing_agent_execute ctx = Inr (SC_RESULT_ERROR, ctx))
   \<and> calculate_angles_agent_execute (sc_memory_init 10) = Inl NullDereference
   \<and> triangle_processing_agent_execute (sc_memory_init 10) = Inl NullDereference
   \<and> fst (CalculateAnglesAgent_execute (main_populate_cpp tri)) = Inr SC_RESULT_ERROR
   \<and> TriangleProcessingAgent_execute (main_populate_cpp tri)
       = (Inr SC_RESULT_ERROR, main_populate_cpp tri)
   \<and> data_cpp (snd (TriangleProcessingAgent_execute (main_populate_cpp tri)))
        ''is_right_triangle'' = None"
    using pipeline_stops_when_completion_fails [of ctx ctx NullDereference "main_populate_cpp tri"]
      pipeline_stops_when_completion_fails [of "sc_memory_init 10" ctx NullDereference
        "main_populate_cpp tri"]
      pop c_err c_null cpp_err cpp_not_ok none
    by auto
  then show ?thesis
    unfolding tri_def .
qed

text \<open>
  C7. Known angles are immutable: after the angle agent the stored triangle has, at every
  position whose angle was known, the same angle (flag and value); after the right-angle
  agent the stored triangle is the same triangle. In C++ this holds for every outcome,
  an exception included.
\<close>

theorem known_angles_are_kept:
  "(sc_memory_get ctx ''input_triangle'' ''triangle'' = Inr (Ptr (Obj_triangle tri)) \<longrightarrow>
      (\<exists>r ctx' tri'. calculate_angles_agent_execute ctx = Inr (r, ctx')
         \<and> sc_memory_get ctx' ''input_triangle'' ''triangle'' = Inr (Ptr (Obj_triangle tri'))
         \<and> list_all2 (\<lambda>a a'. is_known a \<longrightarrow> a' = a) (angles tri) (angles tri'))
      \<and> (\<forall>r ctx'. check_right_angle_agent_execute ctx = Inr (r, ctx') \<longrightarrow>
            sc_memory_get ctx' ''input_triangle'' ''triangle'' = Inr (Ptr (Obj_triangle tri))))
   \<and> (data_cpp cctx ''input_triangle'' = Some (Ptr (Obj_triangle tri)) \<longrightarrow>
      (\<exists>tri'. data_cpp (snd (CalculateAnglesAgent_execute cctx)) ''input_triangle''
             = Some (Ptr (Obj_triangle tri'))
           \<and> list_all2 (\<lambda>a a'. is_known a \<longrightarrow> a' = a) (angles tri) (angles tri'))
      \<and> data_cpp (snd (CheckRightAngleAgent_execute cctx)) ''input_triangle''
             = Some (Ptr (Obj_triangle tri)))"
proof (intro conjI impI allI)
  assume g: "sc_memory_get ctx ''input_triangle'' ''triangle'' = Inr (Ptr (Obj_triangle tri))"
  obtain r tri' where c: "calculate_angles tri = (r, tri')"
    by (cases "calculate_angles tri")
  have "list_all2 (\<lambda>a a'. is_known a \<longrightarrow> a' = a) (angles tri) (angles tri')"
    using c by (rule calculate_angles_keeps_known)
  then show "\<exists>r ctx' tri'. calculate_angles_agent_execute ctx = Inr (r, ctx')
         \<and> sc_memory_get ctx' ''input_triangle'' ''triangle'' = Inr (Ptr (Obj_triangle tri'))
         \<and> list_all2 (\<lambda>a a'. is_known a \<longrightarrow> a' = a) (angles tri) (angles tri')"
    using calculate_angles_agent_execute_result[OF g c] by blast
next
  fix r ctx'
  assume "sc_memory_get ctx ''input_triangle'' ''triangle'' = Inr (Ptr (Obj_triangle tri))"
    and "check_right_angle_agent_execute ctx = Inr (r, ctx')"
  then show "sc_memory_get ctx' ''input_triangle'' ''triangle'' = Inr (Ptr (Obj_triangle tri))"
    by (rule check_right_angle_agent_execute_keeps_triangle)
next
  assume d: "data_cpp cctx ''input_triangle'' = Some (Ptr (Obj_triangle tri))"
  then show "\<exists>tri'. data_cpp (snd (CalculateAnglesAgent_execute cctx)) ''input_triangle''
             = Some (Ptr (Obj_triangle tri'))
           \<and> list_all2 (\<lambda>a a'. is_known a \<longrightarrow> a' = a) (angles tri) (angles tri')"
    by (rule CalculateAnglesAgent_execute_keeps_known)
  from d show "data_cpp (snd (CheckRightAngleAgent_execute cctx)) ''input_triangle''
             = Some (Ptr (Obj_triangle tri))"
    by (rule CheckRightAngleAgent_execute_keeps_triangle)
qed

theorem known_angles_are_kept_witness:
  "(\<exists>ctx. main_populate triangle1 = Inr ctx
      \<and> sc_memory_get ctx ''input_triangle'' ''triangle'' = Inr (Ptr (Obj_triangle triangle1))
      \<and> (\<exists>r ctx' tri'. calculate_angles_agent_execute ctx = Inr (r, ctx')
           \<and> sc_memory_get ctx' ''input_triangle'' ''triangle'' = Inr (Ptr (Obj_triangle tri'))
           \<and> list_all2 (\<lambda>a a'. is_known a \<longrightarrow> a' = a) (angles triangle1) (angles tri'))
      \<and> (\<exists>ctx'. check_right_angle_agent_execute ctx = Inr (SC_RESULT_OK, ctx')
           \<and> sc_memory_get ctx' ''input_triangle'' ''triangle''
               = Inr (Ptr (Obj_triangle triangle1))))
   \<and> data_cpp (main_populate_cpp triangle1) ''input_triangle''
       = Some (Ptr (Obj_triangle triangle1))
   \<and> (\<exists>tri'. data_cpp (snd (CalculateAnglesAgent_execute (main_populate_cpp triangle1)))
                ''input_triangle'' = Some (Ptr (Obj_triangle tri'))
           \<and> list_all2 (\<lambda>a a'. is_known a \<longrightarrow> a' = a) (angles triangle1) (angles tri'))
   \<and> data_cpp (snd (CheckRightAngleAgent_execute (main_populate_cpp triangle1)))
        ''input_triangle'' = Some (Ptr (Obj_triangle triangle1))"
proof -
  define ctx where "ctx =
     \<lparr>entries = [\<lparr>addr = ''input_triangle'', data = Ptr (Obj_triangle triangle1), type = ''triangle''\<rparr>,
                     \<lparr>addr = ''rules_set'', data = Ptr (Obj_int 0), type = ''rules_set''\<rparr>],
          capacity = 10\<rparr>"
  have pop: "main_populate triangle1 = Inr ctx"
    by (simp only: main_populate_eq ctx_def)
  have g: "sc_memory_get ctx ''input_triangle'' ''triangle'' = Inr (Ptr (Obj_triangle triangle1))"
    by (simp add: sc_memory_get_def ctx_def)
  have room: "length (entries ctx) \<le> capacity ctx" "0 < capacity ctx"
    by (simp_all add: ctx_def)
  obtain ctx' where st: "sc_memory_store ctx ''is_right_triangle''
        (Ptr (Obj_int (if right_angle_found (angles triangle1) then 1 else 0))) ''int'' = Inr ctx'"
    using sc_memory_store_room[OF room] by blast
  have chk: "check_right_angle_agent_execute ctx =
      Inr (SC_RESULT_OK, ctx'\<lparr>entries := end_lifetime (entries ctx') ''is_right_triangle''\<rparr>)"
    using g st by (rule check_right_angle_agent_execute_run(2))
  show ?thesis
    using known_angles_are_kept [of ctx triangle1 "main_populate_cpp triangle1"]
      pop g chk main_populate_cpp_holds(2)[of triangle1]
    by blast
qed

text \<open>
  C8. The code does not deliver the idempotence of the stored boolean. On the store as
  \<^verbatim>\<open>main\<close> populates it with the fully known triangle (90, 45, 45), a first and a second
  run of the right-angle agent both return success and leave the same store, but what
  that store holds under \<^verbatim>\<open>is_right_triangle\<close> is, after either run, the address of a
  dead local and no boolean.
\<close>

theorem repeated_classification_stores_no_boolean:
  "(\<exists>ctx ctx1.
      main_populate \<lparr>angles = [\<lparr>value = Finite 90, is_known = True\<rparr>,
          \<lparr>value = Finite 45, is_known = True\<rparr>, \<lparr>value = Finite 45, is_known = True\<rparr>]\<rparr> = Inr ctx
      \<and> check_right_angle_agent_execute ctx = Inr (SC_RESULT_OK, ctx1)
      \<and> sc_memory_get ctx1 ''is_right_triangle'' ''int'' = Inr Dangling
      \<and> check_right_angle_agent_execute ctx1 = Inr (SC_RESULT_OK, ctx1))
   \<and> (\<exists>cctx1.
      CheckRightAngleAgent_execute
        (main_populate_cpp \<lparr>angles = [\<lparr>value = Finite 90, is_known = True\<rparr>,
          \<lparr>value = Finite 45, is_known = True\<rparr>, \<lparr>value = Finite 45, is_known = True\<rparr>]\<rparr>)
        = (Inr SC_RESULT_OK, cctx1)
      \<and> data_cpp cctx1 ''is_right_triangle'' = Some Dangling
      \<and> CheckRightAngleAgent_execute cctx1 = (Inr SC_RESULT_OK, cctx1))"
proof -
  define tri where "tri = \<lparr>angles = [\<lparr>value = Finite 90, is_known = True\<rparr>,
      \<lparr>value = Finite 45, is_known = True\<rparr>, \<lparr>value = Finite 45, is_known = True\<rparr>]\<rparr>"
  define ctx where "ctx =
     \<lparr>entries = [\<lparr>addr = ''input_triangle'', data = Ptr (Obj_triangle tri), type = ''triangle''\<rparr>,
                     \<lparr>addr = ''rules_set'', data = Ptr (Obj_int 0), type = ''rules_set''\<rparr>],
          capacity = 10\<rparr>"
  define cctx1 where "cctx1 = store T_bool ''is_right_triangle'' Dangling (main_populate_cpp tri)"
  have pop: "main_populate tri = Inr ctx"
    by (simp only: main_populate_eq ctx_def)
  have g: "sc_memory_get ctx ''input_triangle'' ''triangle'' = Inr (Ptr (Obj_triangle tri))"
    by (simp add: sc_memory_get_def ctx_def)
  have room: "length (entries ctx) \<le> capacity ctx" "0 < capacity ctx"
    by (simp_all add: ctx_def)
  obtain ctx' where st: "sc_memory_store ctx ''is_right_triangle''
        (Ptr (Obj_int (if right_angle_found (angles tri) then 1 else 0))) ''int'' = Inr ctx'"
    using sc_memory_store_room[OF room] by blast
  define ctx1 where "ctx1 = ctx'\<lparr>entries := end_lifetime (entries ctx') ''is_right_triangle''\<rparr>"
  have run: "check_right_angle_agent_execute ctx = Inr (SC_RESULT_OK, ctx1)"
    unfolding ctx1_def using g st by (rule check_right_angle_agent_execute_run(2))
  have c_part: "\<exists>ctx ctx1. main_populate tri = Inr ctx
      \<and> check_right_angle_agent_execute ctx = Inr (SC_RESULT_OK, ctx1)
      \<and> sc_memory_get ctx1 ''is_right_triangle'' ''int'' = Inr Dangling
      \<and> check_right_angle_agent_execute ctx1 = Inr (SC_RESULT_OK, ctx1)"
    using pop run check_right_angle_agent_execute_dangles[OF run]
      check_right_angle_agent_execute_again[OF run]
    by blast
  have cpp1: "CheckRightAngleAgent_execute (main_populate_cpp tri) = (Inr SC_RESULT_OK, cctx1)"
    unfolding cctx1_def using main_populate_cpp_holds[of tri]
    by (rule CheckRightAngleAgent_execute_run)
  have h1: "types cctx1 ''input_triangle'' = Some (Name_of T_Triangle)"
    "data_cpp cctx1 ''input_triangle'' = Some (Ptr (Obj_triangle tri))"
    "types cctx1 ''rules_set'' = Some (Name_of T_rules)"
    "data_cpp cctx1 ''rules_set'' = Some (Ptr (Obj_rules [(''right_angle_threshold'', ''90.0'')]))"
    using main_populate_cpp_holds[of tri] by (simp_all add: cctx1_def store_def)
  have "CheckRightAngleAgent_execute cctx1 =
      (Inr SC_RESULT_OK, store T_bool ''is_right_triangle'' Dangling cctx1)"
    using h1 by (rule CheckRightAngleAgent_execute_run)
  also have "store T_bool ''is_right_triangle'' Dangling cctx1 = cctx1"
    unfolding cctx1_def by (rule store_again)
  finally have cpp2: "CheckRightAngleAgent_execute cctx1 = (Inr SC_RESULT_OK, cctx1)" .
  have cls: "data_cpp cctx1 ''is_right_triangle'' = Some Dangling"
    by (simp add: cctx1_def store_def)
  have "(\<exists>ctx ctx1. main_populate tri = Inr ctx
      \<and> check_right_angle_agent_execute ctx = Inr (SC_RESULT_OK, ctx1)
      \<and> sc_memory_get ctx1 ''is_right_triangle'' ''int'' = Inr Dangling
      \<and> check_right_angle_agent_execute ctx1 = Inr (SC_RESULT_OK, ctx1))
   \<and> (\<exists>cctx1. CheckRightAngleAgent_execute (main_populate_cpp tri) = (Inr SC_RESULT_OK, cctx1)
      \<and> data_cpp cctx1 ''is_right_triangle'' = Some Dangling
      \<and> CheckRightAngleAgent_execute cctx1 = (Inr SC_RESULT_OK, cctx1))"
    using c_part cpp1 cls cpp2 by blast
  then show ?thesis
    unfolding tri_def .
qed

text \<open>
  C9. The code does not deliver scenario C. On the store as \<^verbatim>\<open>main\<close> populates it with
  (90 known, 90 known, unknown), whatever value the unknown slot holds, the angle agent
  completes the third angle to 0 = 180 - (90 + 90) and marks it known, and the
  right-angle agent returns success; but the classification it leaves is the address
  of its dead local, and the pipeline reads through it, which is undefined.
\<close>

theorem scenario_C_reads_dead_classification:
  "(\<exists>ctx ctx1 ctx2.
      main_populate \<lparr>angles = [\<lparr>value = Finite 90, is_known = True\<rparr>,
           \<lparr>value = Finite 90, is_known = True\<rparr>, \<lparr>value = stale, is_known = False\<rparr>]\<rparr> = Inr ctx
      \<and> calculate_angles_agent_execute ctx = Inr (SC_RESULT_OK, ctx1)
      \<and> sc_memory_get ctx1 ''input_triangle'' ''triangle''
          = Inr (Ptr (Obj_triangle \<lparr>angles = [\<lparr>value = Finite 90, is_known = True\<rparr>,
                \<lparr>value = Finite 90, is_known = True\<rparr>, \<lparr>value = Finite 0, is_known = True\<rparr>]\<rparr>))
      \<and> check_right_angle_agent_execute ctx1 = Inr (SC_RESULT_OK, ctx2)
      \<and> sc_memory_get ctx2 ''is_right_triangle'' ''int'' = Inr Dangling
      \<and> triangle_processing_agent_execute ctx = Inl DanglingDereference)
   \<and> (\<exists>cctx1.
      CalculateAnglesAgent_execute
        (main_populate_cpp \<lparr>angles = [\<lparr>value = Finite 90, is_known = True\<rparr>,
             \<lparr>value = Finite 90, is_known = True\<rparr>, \<lparr>value = stale, is_known = False\<rparr>]\<rparr>)
        = (Inr SC_RESULT_OK, cctx1)
      \<and> data_cpp cctx1 ''input_triangle''
          = Some (Ptr (Obj_triangle \<lparr>angles = [\<lparr>value = Finite 90, is_known = True\<rparr>,
                \<lparr>value = Finite 90, is_known = True\<rparr>, \<lparr>value = Finite 0, is_known = True\<rparr>]\<rparr>))
      \<and> fst (CheckRightAngleAgent_execute cctx1) = Inr SC_RESULT_OK
      \<and> data_cpp (snd (CheckRightAngleAgent_execute cctx1)) ''is_right_triangle'' = Some Dangling
      \<and> fst (TriangleProcessingAgent_execute
           (main_populate_cpp \<lparr>angles = [\<lparr>value = Finite 90, is_known = True\<rparr>,
             \<lparr>value = Finite 90, is_known = True\<rparr>, \<lparr>value = stale, is_known = False\<rparr>]\<rparr>))
          = Inl DanglingDereference)"
proof -
  define tri where "tri = \<lparr>angles = [\<lparr>value = Finite 90, is_known = True\<rparr>,
      \<lparr>value = Finite 90, is_known = True\<rparr>, \<lparr>value = stale, is_known = False\<rparr>]\<rparr>"
  define tri' where "tri' = \<lparr>angles = [\<lparr>value = Finite 90, is_known = True\<rparr>,
      \<lparr>value = Finite 90, is_known = True\<rparr>, \<lparr>value = Finite 0, is_known = True\<rparr>]\<rparr>"
  define ctx where "ctx =
     \<lparr>entries = [\<lparr>addr = ''input_triangle'', data = Ptr (Obj_triangle tri), type = ''triangle''\<rparr>,
                     \<lparr>addr = ''rules_set'', data = Ptr (Obj_int 0), type = ''rules_set''\<rparr>],
          capacity = 10\<rparr>"
  define ctx1 where "ctx1 =
     \<lparr>entries = [\<lparr>addr = ''input_triangle'', data = Ptr (Obj_triangle tri'), type = ''triangle''\<rparr>,
                     \<lparr>addr = ''rules_set'', data = Ptr (Obj_int 0), type = ''rules_set''\<rparr>],
          capacity = 10\<rparr>"
  have calc: "calculate_angles tri = (SC_RESULT_OK, tri')"
    unfolding tri_def tri'_def by (rule calculate_angles_scenario_C)
  have pop: "main_populate tri = Inr ctx"
    by (simp only: main_populate_eq ctx_def)
  have g: "sc_memory_get ctx ''input_triangle'' ''triangle'' = Inr (Ptr (Obj_triangle tri))"
    by (simp add: sc_memory_get_def ctx_def)
  have step1: "calculate_angles_agent_execute ctx = Inr (SC_RESULT_OK, ctx1)"
    using calculate_angles_agent_execute_run[OF g] calc by (simp add: ctx_def ctx1_def)
  have g1: "sc_memory_get ctx1 ''input_triangle'' ''triangle'' = Inr (Ptr (Obj_triangle tri'))"
    by (simp add: sc_memory_get_def ctx1_def)
  have room: "length (entries ctx1) \<le> capacity ctx1" "0 < capacity ctx1"
    by (simp_all add: ctx1_def)
  obtain ctx' where st: "sc_memory_store ctx1 ''is_right_triangle''
        (Ptr (Obj_int (if right_angle_found (angles tri') then 1 else 0))) ''int'' = Inr ctx'"
    using sc_memory_store_room[OF room] by blast
  define ctx2 where "ctx2 = ctx'\<lparr>entries := end_lifetime (entries ctx') ''is_right_triangle''\<rparr>"
  have step2: "check_right_angle_agent_execute ctx1 = Inr (SC_RESULT_OK, ctx2)"
    unfolding ctx2_def using g1 st by (rule check_right_angle_agent_execute_run(2))
  have c_part: "\<exists>ctx ctx1 ctx2. main_populate tri = Inr ctx
      \<and> calculate_angles_agent_execute ctx = Inr (SC_RESULT_OK, ctx1)
      \<and> sc_memory_get ctx1 ''input_triangle'' ''triangle'' = Inr (Ptr (Obj_triangle tri'))
      \<and> check_right_angle_agent_execute ctx1 = Inr (SC_RESULT_OK, ctx2)
      \<and> sc_memory_get ctx2 ''is_right_triangle'' ''int'' = Inr Dangling
      \<and> triangle_processing_agent_execute ctx = Inl DanglingDereference"
    using pop step1 g1 step2 check_right_angle_agent_execute_dangles[OF step2]
      triangle_processing_agent_execute_reads_dead_local[OF step1 step2]
    by blast
  define cctx1 where "cctx1 = (main_populate_cpp tri)\<lparr>data_cpp :=
      (data_cpp (main_populate_cpp tri))(''input_triangle'' \<mapsto> Ptr (Obj_triangle tri'))\<rparr>"
  have cstep1: "CalculateAnglesAgent_execute (main_populate_cpp tri) = (Inr SC_RESULT_OK, cctx1)"
    using CalculateAnglesAgent_execute_run[OF main_populate_cpp_holds, of tri] calc
    by (simp add: cctx1_def)
  have h1: "types cctx1 ''input_triangle'' = Some (Name_of T_Triangle)"
    "data_cpp cctx1 ''input_triangle'' = Some (Ptr (Obj_triangle tri'))"
    "types cctx1 ''rules_set'' = Some (Name_of T_rules)"
    "data_cpp cctx1 ''rules_set'' = Some (Ptr (Obj_rules [(''right_angle_threshold'', ''90.0'')]))"
    using main_populate_cpp_holds[of tri] by (simp_all add: cctx1_def)
  have cstep2: "CheckRightAngleAgent_execute cctx1 =
      (Inr SC_RESULT_OK, store T_bool ''is_right_triangle'' Dangling cctx1)"
    using h1 by (rule CheckRightAngleAgent_execute_run)
  have cpipe: "TriangleProcessingAgent_execute (main_populate_cpp tri) =
     (Inl DanglingDereference, store T_bool ''is_right_triangle'' Dangling cctx1)"
    using cstep1 h1 by (rule TriangleProcessingAgent_execute_reads_dead_local)
  have cpp_part: "\<exists>cctx1. CalculateAnglesAgent_execute (main_populate_cpp tri)
        = (Inr SC_RESULT_OK, cctx1)
      \<and> data_cpp cctx1 ''input_triangle'' = Some (Ptr (Obj_triangle tri'))
      \<and> fst (CheckRightAngleAgent_execute cctx1) = Inr SC_RESULT_OK
      \<and> data_cpp (snd (CheckRightAngleAgent_execute cctx1)) ''is_right_triangle'' = Some Dangling
      \<and> fst (TriangleProcessingAgent_execute (main_populate_cpp tri)) = Inl DanglingDereference"
    using cstep1 h1(2) cstep2 cpipe by (auto simp: store_def)
  from c_part cpp_part show ?thesis
    unfolding tri_def tri'_def by blast
qed

text \<open>
  C3. The round trip does not hold for every C context: \<^verbatim>\<open>sc_memory_init(&ctx, 0)\<close> gives
  a context with no slot, the resize of \<^verbatim>\<open>sc_memory_store\<close> doubles zero to zero, and the
  new entry is written past the allocation, so there is no store to retrieve from.
\<close>

theorem store_into_zero_capacity_context:
  "length (entries (sc_memory_init 0)) \<le> capacity (sc_memory_init 0)
   \<and> sc_memory_store (sc_memory_init 0) ''input_triangle'' (Ptr (Obj_triangle triangle1)) ''triangle''
       = Inl OutOfBounds"
  by (simp add: sc_memory_store_def sc_memory_init_def)

text \<open>
  C4 (amended). The only error of a retrieval is \<open>TypeMismatch\<close>. The C \<^verbatim>\<open>sc_memory_get\<close>
  returns a null pointer for an absent key, raises \<open>TypeMismatch\<close> when the first entry of
  that name carries another tag, and returns the entry's pointer otherwise. The C++
  \<^verbatim>\<open>get\<close> raises \<open>TypeMismatch\<close> unless the key is present with the name of the requested
  type, an absent key included, and returns the pointer otherwise.
\<close>

theorem get_raises_only_type_mismatch:
  "sc_memory_get ctx a t =
     (case find (\<lambda>e. addr e = a) (entries ctx) of
        None \<Rightarrow> Inr NULL
      | Some e \<Rightarrow> if type e \<noteq> t then Inl TypeMismatch else Inr (data e))
   \<and> fst (get T a cctx) =
     (if types cctx a = Some (Name_of T)
      then Inr (case data_cpp cctx a of None \<Rightarrow> NULL | Some p \<Rightarrow> p)
      else Inl TypeMismatch)"
proof
  show "sc_memory_get ctx a t =
     (case find (\<lambda>e. addr e = a) (entries ctx) of
        None \<Rightarrow> Inr NULL
      | Some e \<Rightarrow> if type e \<noteq> t then Inl TypeMismatch else Inr (data e))"
    unfolding sc_memory_get_def by (rule get_loop_find)
  show "fst (get T a cctx) =
     (if types cctx a = Some (Name_of T)
      then Inr (case data_cpp cctx a of None \<Rightarrow> NULL | Some p \<Rightarrow> p)
      else Inl TypeMismatch)"
    by (auto simp: get_def Let_def split: option.splits)
qed

text \<open>
  C4 as stated fails on the C++ store: a retrieval from the empty context, where the
  key is absent, raises \<open>TypeMismatch\<close> and not \<open>KeyNotFound\<close>.
\<close>

theorem get_absent_key_is_not_key_not_found_counterexample:
  "types \<lparr>data_cpp = Map.empty, types = Map.empty\<rparr> ''is_right_triangle'' = None
   \<and> data_cpp \<lparr>data_cpp = Map.empty, types = Map.empty\<rparr> ''is_right_triangle'' = None
   \<and> fst (get T_bool ''is_right_triangle'' \<lparr>data_cpp = Map.empty, types = Map.empty\<rparr>)
       = Inl TypeMismatch
   \<and> fst (get T_bool ''is_right_triangle'' \<lparr>data_cpp = Map.empty, types = Map.empty\<rparr>)
       \<noteq> Inl KeyNotFound"
  by (simp add: get_def Let_def)

text \<open>
  C10. In the C++ store a \<open>get\<close> on an absent key is not read-only: \<^verbatim>\<open>types[addr]\<close>
  inserts the key with an empty type name before the comparison fails, so the failed
  retrieval returns a context that differs from the one it was given.
\<close>

theorem get_absent_key_inserts_empty_name:
  "types ctx a = None \<Longrightarrow>
     get T a ctx = (Inl TypeMismatch, ctx\<lparr>types := (types ctx)(a \<mapsto> Empty_name)\<rparr>)
     \<and> types (snd (get T a ctx)) a = Some Empty_name
     \<and> snd (get T a ctx) \<noteq> ctx"
proof -
  assume absent: "types ctx a = None"
  let ?ctx' = "ctx\<lparr>types := (types ctx)(a \<mapsto> Empty_name)\<rparr>"
  have run: "get T a ctx = (Inl TypeMismatch, ?ctx')"
    using absent by (simp add: get_def Let_def)
  have "types ?ctx' a \<noteq> types ctx a"
    using absent by simp
  then have "?ctx' \<noteq> ctx"
    by metis
  with run show ?thesis
    by simp
qed

theorem get_absent_key_inserts_empty_name_witness:
  "types \<lparr>data_cpp = Map.empty, types = Map.empty\<rparr> ''input_triangle'' = None
   \<and> fst (get T_Triangle ''input_triangle'' \<lparr>data_cpp = Map.empty, types = Map.empty\<rparr>) = Inl TypeMismatch
   \<and> types (snd (get T_Triangle ''input_triangle'' \<lparr>data_cpp = Map.empty, types = Map.empty\<rparr>)) ''input_triangle''
       = Some Empty_name
   \<and> snd (get T_Triangle ''input_triangle'' \<lparr>data_cpp = Map.empty, types = Map.empty\<rparr>)
       \<noteq> \<lparr>data_cpp = Map.empty, types = Map.empty\<rparr>"
  using get_absent_key_inserts_empty_name
    [of "\<lparr>data_cpp = Map.empty, types = Map.empty\<rparr>" "''input_triangle''" T_Triangle]
  by simp

end
